theory Spec2Isabelle
  imports Main
begin

section \<open>Values, configuration objects and the task graph\<close>

text \<open>
  The module \<^verbatim>\<open>xlml/apis/task.py\<close> composes Airflow task graphs. A call of an
  operator (a decorated function of \<^verbatim>\<open>xlml.utils\<close>) adds one node to the graph
  under construction, a \<^verbatim>\<open>with TaskGroup(...)\<close> block groups the nodes created
  inside it, and \<^verbatim>\<open>a >> b\<close> adds dependency edges. The graph under
  construction is the state that every composing function passes on.
\<close>

type_synonym timedelta = int
  \<comment> \<open>a \<^verbatim>\<open>datetime.timedelta\<close>, as its total number of microseconds\<close>

definition minutes :: "int \<Rightarrow> timedelta" where
  "minutes m = m * 60000000"

text \<open>
  \<^verbatim>\<open>td.total_seconds()\<close> is the true division of the number of microseconds by
  \<open>10^6\<close>. Python's true division of two integers gives the double nearest to the
  exact quotient, a tie going to the even significand; \<^verbatim>\<open>int\<close> then drops the
  fraction. A \<^verbatim>\<open>timedelta\<close> holds at most 999999999 days, so the quotient is far
  inside the range of the normal doubles, and the significand has 53 bits.
\<close>

function bit_length :: "int \<Rightarrow> nat" where
  \<comment> \<open>\<^verbatim>\<open>n.bit_length()\<close> for \<open>0 \<le> n\<close>\<close>
  "bit_length n = (if n \<le> 0 then 0 else Suc (bit_length (n div 2)))"
  by pat_completeness auto
termination
  by (relation "measure nat") auto

declare bit_length.simps [simp del]

definition round_half_even :: "int \<Rightarrow> int \<Rightarrow> int" where
  \<comment> \<open>the integer nearest to \<open>a / b\<close>, for \<open>0 \<le> a\<close> and \<open>0 < b\<close>; a tie goes to the even one\<close>
  "round_half_even a b =
     (let q = a div b; r = a mod b
      in if 2 * r < b then q else if b < 2 * r then q + 1 else if even q then q else q + 1)"

definition int_true_divide :: "int \<Rightarrow> int \<Rightarrow> int" where
  \<comment> \<open>\<^verbatim>\<open>int(a / b)\<close> for \<open>0 \<le> a\<close> and \<open>0 < b\<close>: with \<open>2^fl \<le> a / b < 2^(fl + 1)\<close> the double
      nearest to \<open>a / b\<close> is \<open>m * 2^e\<close>, where \<open>e = fl - 52\<close> and \<open>m\<close> is \<open>a / (b * 2^e)\<close>
      rounded to the nearest integer\<close>
  "int_true_divide a b =
     (if a = 0 then 0
      else let k = int (bit_length a) - int (bit_length b);
               fl = (if (if 0 \<le> k then b * 2 ^ nat k \<le> a else b \<le> a * 2 ^ nat (- k))
                     then k else k - 1);
               e = fl - 52
           in if e \<le> 0 then round_half_even (a * 2 ^ nat (- e)) b div 2 ^ nat (- e)
              else round_half_even a (b * 2 ^ nat e) * 2 ^ nat e)"

definition total_seconds_int :: "timedelta \<Rightarrow> int" where
  \<comment> \<open>\<^verbatim>\<open>int(td.total_seconds())\<close>; the division of a negative number mirrors that of
      its absolute value\<close>
  "total_seconds_int td =
     (if 0 \<le> td then int_true_divide td 1000000 else - int_true_divide (- td) 1000000)"

datatype error = AttributeError | ValueError

datatype json =
    JStr string
  | JInt int
  | JBool bool
  | JList "json list"
  | JDict "(string \<times> json) list"

datatype val =
    VNone
  | VBool bool
  | VInt int
  | VStr string
  | VTimedelta timedelta
  | VSeconds timedelta
  | VXCom nat
  | VDict "(string \<times> val) list"
  | VObj string
  | VJson json

text \<open>
  \<open>VXCom n\<close> is the \<^verbatim>\<open>XComArg\<close> of node \<open>n\<close>; \<open>VSeconds td\<close> is the float
  \<^verbatim>\<open>td.total_seconds()\<close>; \<open>VObj a\<close> is the object held by the attribute or
  parameter \<open>a\<close>, passed by reference.
\<close>

datatype piece = Chars string | XComText nat
  \<comment> \<open>a piece of a formatted string: literal characters, or the rendering of an \<^verbatim>\<open>XComArg\<close>\<close>

record accelerator =
  name :: string
  accelerator_type :: string
  count :: int

record test_config =
  test_name :: string
  benchmark_id :: string
  gcs_subfolder :: string
  setup_script :: string
  test_script :: string
  timeout :: timedelta
  task_owner :: string
  run_model_cmds :: "piece list list"
  cluster_name :: string
  docker_image :: string
  accelerator :: accelerator
  num_slices :: int
  num_hosts :: int

record gcp_config =
  project_name :: string
  zone :: string

record summary_config =
  file_location :: val

record profile_config = summary_config +
  metrics :: val

record metric_config =
  tensorboard_summary :: "summary_config option"
  profile :: "profile_config option"
  use_runtime_generated_gcs_folder :: bool

record task =
  task_group :: "string list"
  operator :: string
  override :: "(string \<times> val) list"
  args :: "val list"
  kwargs :: "(string \<times> val) list"

record dag =
  tasks :: "task list"
  edges :: "(nat \<times> nat) list"
  ctx :: "string list"

text \<open>
  Node \<open>n\<close> of the graph is \<open>tasks d ! n\<close>; \<open>task_group\<close> lists the ids of the
  groups that enclose it, outermost first; \<open>ctx\<close> is the stack of the groups that
  are open. An edge \<open>(u, v)\<close> says that \<open>v\<close> is downstream of \<open>u\<close>.
\<close>

datatype dagnode = Task nat | Group "nat list"

fun members :: "dagnode \<Rightarrow> nat list" where
  "members (Task t) = [t]"
| "members (Group ms) = ms"

fun xcom_refs :: "val \<Rightarrow> nat list" where
  "xcom_refs (VXCom n) = [n]"
| "xcom_refs (VDict kvs) = concat (map (\<lambda>kv. xcom_refs (snd kv)) kvs)"
| "xcom_refs _ = []"

definition operator_call ::
  "string \<Rightarrow> (string \<times> val) list \<Rightarrow> val list \<Rightarrow> (string \<times> val) list \<Rightarrow> dag \<Rightarrow> nat \<times> dag" where
  \<comment> \<open>\<^verbatim>\<open>op.override(**ov)(*as, **kw)\<close>: a new node in the open group, downstream of
      every node whose \<^verbatim>\<open>XComArg\<close> it is given\<close>
  "operator_call op ov as kw d =
     (let n = length (tasks d) in
      (n, d\<lparr>tasks := tasks d @
                [\<lparr>task_group = ctx d, operator = op, override = ov, args = as, kwargs = kw\<rparr>],
             edges := edges d @
                map (\<lambda>u. (u, n)) (concat (map xcom_refs (as @ map snd kw)))\<rparr>))"

definition TaskGroupContext_push :: "string \<Rightarrow> dag \<Rightarrow> dag" where
  "TaskGroupContext_push group_id d = d\<lparr>ctx := ctx d @ [group_id]\<rparr>"

definition TaskGroupContext_pop :: "dag \<Rightarrow> dag" where
  "TaskGroupContext_pop d = d\<lparr>ctx := butlast (ctx d)\<rparr>"

definition TaskGroup_enter :: "string \<Rightarrow> dag \<Rightarrow> nat \<times> dag" where
  \<comment> \<open>\<^verbatim>\<open>with TaskGroup(group_id=...)\<close> opens a new group; the number returned is the
      index of the first node it will hold\<close>
  "TaskGroup_enter group_id d = (length (tasks d), TaskGroupContext_push group_id d)"

definition TaskGroup_exit :: "nat \<Rightarrow> dag \<Rightarrow> dagnode \<times> dag" where
  \<comment> \<open>the end of the \<^verbatim>\<open>with\<close> block: the group holds every node created since it
      was opened\<close>
  "TaskGroup_exit n0 d = (Group [n0..<length (tasks d)], TaskGroupContext_pop d)"

definition downstream_task_ids :: "(nat \<times> nat) list \<Rightarrow> nat \<Rightarrow> nat list" where
  "downstream_task_ids es t = map snd (filter (\<lambda>e. fst e = t) es)"

definition upstream_task_ids :: "(nat \<times> nat) list \<Rightarrow> nat \<Rightarrow> nat list" where
  "upstream_task_ids es t = map fst (filter (\<lambda>e. snd e = t) es)"

fun get_leaves :: "(nat \<times> nat) list \<Rightarrow> dagnode \<Rightarrow> nat list" where
  "get_leaves es (Task t) = [t]"
| "get_leaves es (Group ms) =
     filter (\<lambda>t. \<forall>x \<in> set (downstream_task_ids es t). x \<notin> set ms) ms"

fun get_roots :: "(nat \<times> nat) list \<Rightarrow> dagnode \<Rightarrow> nat list" where
  "get_roots es (Task t) = [t]"
| "get_roots es (Group ms) =
     filter (\<lambda>t. \<forall>x \<in> set (upstream_task_ids es t). x \<notin> set ms) ms"

definition rshift :: "dagnode list \<Rightarrow> dagnode list \<Rightarrow> dag \<Rightarrow> dag" where
  \<comment> \<open>\<^verbatim>\<open>a >> b\<close>: every leaf of \<open>a\<close> gets every root of \<open>b\<close> downstream\<close>
  "rshift a b d =
     d\<lparr>edges := edges d @
          concat (map (\<lambda>u. map (\<lambda>v. (u, v)) (concat (map (get_roots (edges d)) b)))
                      (concat (map (get_leaves (edges d)) a)))\<rparr>"

definition GCS_OUTPUT :: string where
  "GCS_OUTPUT = ''GCS_OUTPUT''"

definition startswith :: "string \<Rightarrow> string \<Rightarrow> bool" where
  "startswith s p = (take (length p) s = p)"

definition opt_obj :: "string \<Rightarrow> 'a option \<Rightarrow> val" where
  \<comment> \<open>an optional object passed on: \<^verbatim>\<open>None\<close>, or the object by reference\<close>
  "opt_obj a x = (case x of None \<Rightarrow> VNone | Some _ \<Rightarrow> VObj a)"

definition opt_str :: "string option \<Rightarrow> val" where
  \<comment> \<open>an optional string passed on\<close>
  "opt_str x = (case x of None \<Rightarrow> VNone | Some s \<Rightarrow> VStr s)"

section \<open>The queued-resource pipeline\<close>

definition run_queued_resource_test_body ::
  "test_config \<Rightarrow> gcp_config \<Rightarrow> metric_config option \<Rightarrow> timedelta \<Rightarrow> bool \<Rightarrow> bool \<Rightarrow> dag
     \<Rightarrow> (dagnode \<times> dagnode \<times> dagnode \<times> dagnode) \<times> dag" where
  "run_queued_resource_test_body task_test_config task_gcp_config task_metric_config
       tpu_create_timeout tpu_name_env_var all_workers d0 =
     (let (g_provision, d) = TaskGroup_enter ''provision'' d0;
          (g_initialize, d) = TaskGroup_enter ''initialize'' d;
          (tpu_name, d) = operator_call ''tpu.generate_tpu_name'' []
             [VStr (benchmark_id task_test_config), VBool tpu_name_env_var] [] d;
          (ssh_keys, d) = operator_call ''ssh.generate_ssh_keys'' [] [] [] d;
          (output_location, d) = operator_call ''name_format.generate_gcs_folder_location'' []
             [VStr (gcs_subfolder task_test_config), VStr (benchmark_id task_test_config)] [] d;
          (initialize, d) = TaskGroup_exit g_initialize d;
          (queued_resource, d) = operator_call ''tpu.create_queued_resource'' []
             [VXCom tpu_name, VObj ''task_gcp_config'', VXCom ssh_keys,
              VTimedelta tpu_create_timeout, VObj ''task_test_config''] [] d;
          (setup, d) = operator_call ''tpu.ssh_tpu'' [(''task_id'', VStr ''setup'')]
             [VXCom queued_resource, VStr (setup_script task_test_config), VXCom ssh_keys,
              VBool (if startswith (test_name task_test_config) ''tf_'' then True else all_workers)]
             [] d;
          d = rshift [Task queued_resource] [Task setup] d;
          (provision, d) = TaskGroup_exit g_provision d;
          (run_model, d) = operator_call ''tpu.ssh_tpu''
             [(''task_id'', VStr ''run_model''),
              (''execution_timeout'', VTimedelta (timeout task_test_config)),
              (''owner'', VStr (task_owner task_test_config))]
             [VXCom queued_resource, VStr (test_script task_test_config), VXCom ssh_keys,
              VBool all_workers]
             [(''env'', VDict [(GCS_OUTPUT, VXCom output_location)])] d;
          (g_post_process, d) = TaskGroup_enter ''post_process'' d;
          (process_id, d) = operator_call ''metric.generate_process_id''
             [(''retries'', VInt 0)] [] [] d;
          (process_metrics, d) = operator_call ''metric.process_metrics''
             [(''retries'', VInt 0)]
             [VXCom process_id, VObj ''task_test_config'',
              opt_obj ''task_metric_config'' task_metric_config, VObj ''task_gcp_config'']
             [(''folder_location'', VXCom output_location)] d;
          (post_process, d) = TaskGroup_exit g_post_process d;
          (clean_up, d) = operator_call ''tpu.delete_queued_resource''
             [(''group_id'', VStr ''clean_up'')] [VXCom queued_resource] [] d;
          d = rshift [provision] [Task run_model] d;
          d = rshift [Task run_model] [post_process] d;
          d = rshift [post_process] [Task clean_up] d
      in ((provision, Task run_model, post_process, Task clean_up), d))"

definition run_queued_resource_test ::
  "test_config \<Rightarrow> gcp_config \<Rightarrow> metric_config option \<Rightarrow> timedelta \<Rightarrow> bool \<Rightarrow> bool \<Rightarrow> dag
     \<Rightarrow> dagnode \<times> dag" where
  "run_queued_resource_test task_test_config task_gcp_config task_metric_config
       tpu_create_timeout tpu_name_env_var all_workers d0 =
     (let (g_test, d) = TaskGroup_enter (benchmark_id task_test_config) d0;
          (stages, d) = run_queued_resource_test_body task_test_config task_gcp_config
             task_metric_config tpu_create_timeout tpu_name_env_var all_workers d
      in TaskGroup_exit g_test d)"

section \<open>Task classes\<close>

record base_task =
  task_test_config :: test_config
  task_gcp_config :: gcp_config
  task_metric_config :: "metric_config option"

text \<open>
  The methods of a task class take the object \<open>self\<close> and the graph; a method that
  assigns to an attribute reachable from \<open>self\<close> returns the updated object.
  \<^verbatim>\<open>BaseTask.run\<close> is abstract: \<open>run_with_quarantine\<close> takes the subclass's
  \<open>run\<close> as an argument. \<^verbatim>\<open>QuarantineTests.is_quarantined\<close> is defined outside
  this module and is a parameter as well.
\<close>

definition run_with_quarantine ::
  "(string \<Rightarrow> bool) \<Rightarrow> ('a base_task_scheme \<Rightarrow> dag \<Rightarrow> 'r \<times> dag) \<Rightarrow>
     'a base_task_scheme \<Rightarrow> string \<Rightarrow> dag \<Rightarrow> 'r \<times> dag" where
  "run_with_quarantine is_quarantined run self quarantine_task_group d0 =
     (let test_name = benchmark_id (task_test_config self) in
      if is_quarantined test_name then
        (let d = TaskGroupContext_push quarantine_task_group d0;
             (r, d) = run self d
         in (r, TaskGroupContext_pop d))
      else run self d0)"

subsection \<open>XpkTask\<close>

record xpk_task = base_task +
  workload_provision_timeout :: timedelta

definition region_of :: "string \<Rightarrow> string" where
  \<comment> \<open>\<^verbatim>\<open>zone[:-2]\<close>\<close>
  "region_of z = take (length z - 2) z"

definition XpkTask_launch_workload ::
  "xpk_task \<Rightarrow> nat \<Rightarrow> nat \<Rightarrow> bool \<Rightarrow> bool \<Rightarrow> string \<Rightarrow> bool \<Rightarrow> string \<Rightarrow> dag
     \<Rightarrow> dagnode \<times> dag" where
  "XpkTask_launch_workload self workload_id gcs_path use_vertex_tensorboard use_pathways
       ramdisk_directory mtc_enabled xpk_branch d0 =
     (let (g, d) = TaskGroup_enter ''launch_workload'' d0;
          (run_workload, d) = operator_call ''xpk.run_workload''
             [(''owner'', VStr (task_owner (task_test_config self)))] []
             [(''task_id'', VStr ''run_workload''),
              (''cluster_project'', VStr (project_name (task_gcp_config self))),
              (''zone'', VStr (zone (task_gcp_config self))),
              (''cluster_name'', VStr (cluster_name (task_test_config self))),
              (''benchmark_id'', VStr (benchmark_id (task_test_config self))),
              (''workload_id'', VXCom workload_id),
              (''gcs_path'', VXCom gcs_path),
              (''docker_image'', VStr (docker_image (task_test_config self))),
              (''accelerator_type'', VStr (name (accelerator (task_test_config self)))),
              (''run_cmds'', VStr (test_script (task_test_config self))),
              (''num_slices'', VInt (num_slices (task_test_config self))),
              (''use_vertex_tensorboard'', VBool use_vertex_tensorboard),
              (''use_pathways'', VBool use_pathways),
              (''ramdisk_directory'', VStr ramdisk_directory),
              (''mtc_enabled'', VBool mtc_enabled),
              (''xpk_branch'', VStr xpk_branch)] d;
          (wait_for_workload_start, d) = operator_call ''xpk.wait_for_workload_start''
             [(''timeout'', VSeconds (workload_provision_timeout self))] []
             [(''workload_id'', VXCom workload_id),
              (''project_id'', VStr (project_name (task_gcp_config self))),
              (''region'', VStr (region_of (zone (task_gcp_config self)))),
              (''cluster_name'', VStr (cluster_name (task_test_config self)))] d;
          d = rshift [Task run_workload] [Task wait_for_workload_start] d
      in TaskGroup_exit g d)"

definition XpkTask_run_model ::
  "xpk_task \<Rightarrow> nat option \<Rightarrow> bool \<Rightarrow> bool \<Rightarrow> string \<Rightarrow> bool \<Rightarrow> string \<Rightarrow> dag
     \<Rightarrow> (dagnode \<times> nat) \<times> dag" where
  "XpkTask_run_model self gcs_location use_vertex_tensorboard use_pathways
       ramdisk_directory mtc_enabled xpk_branch d0 =
     (let (g, d) = TaskGroup_enter ''run_model'' d0;
          (workload_id, d) = operator_call ''xpk.generate_workload_id'' []
             [VStr (benchmark_id (task_test_config self))] [] d;
          (gcs_path, d) =
             (case gcs_location of
                Some l \<Rightarrow> (l, d)
              | None \<Rightarrow> operator_call ''name_format.generate_gcs_folder_location'' []
                  [VStr (gcs_subfolder (task_test_config self)),
                   VStr (benchmark_id (task_test_config self))] [] d);
          (launch_workload, d) = XpkTask_launch_workload self workload_id gcs_path
             use_vertex_tensorboard use_pathways ramdisk_directory mtc_enabled xpk_branch d;
          (wait_for_workload_completion, d) = operator_call ''xpk.wait_for_workload_completion''
             [(''timeout'', VInt (total_seconds_int (timeout (task_test_config self))))] []
             [(''workload_id'', VXCom workload_id),
              (''project_id'', VStr (project_name (task_gcp_config self))),
              (''region'', VStr (region_of (zone (task_gcp_config self)))),
              (''cluster_name'', VStr (cluster_name (task_test_config self)))] d;
          (clean_up_workload, d) = operator_call ''xpk.clean_up_workload'' [] []
             [(''workload_id'', VXCom workload_id),
              (''project_id'', VStr (project_name (task_gcp_config self))),
              (''zone'', VStr (zone (task_gcp_config self))),
              (''cluster_name'', VStr (cluster_name (task_test_config self)))] d;
          d = rshift [Task workload_id, Task gcs_path] [launch_workload] d;
          d = rshift [launch_workload] [Task wait_for_workload_completion] d;
          d = rshift [Task wait_for_workload_completion] [Task clean_up_workload] d;
          (group, d) = TaskGroup_exit g d
      in ((group, gcs_path), d))"

definition opt_xcom :: "nat option \<Rightarrow> val" where
  "opt_xcom x = (case x of None \<Rightarrow> VNone | Some n \<Rightarrow> VXCom n)"

definition has_profile :: "metric_config option \<Rightarrow> bool" where
  \<comment> \<open>\<^verbatim>\<open>self.task_metric_config and self.task_metric_config.profile\<close>\<close>
  "has_profile mc = (case mc of None \<Rightarrow> False | Some m \<Rightarrow> profile m \<noteq> None)"

definition XpkTask_post_process ::
  "xpk_task \<Rightarrow> nat option \<Rightarrow> dag \<Rightarrow> (dagnode \<times> xpk_task) \<times> dag" where
  "XpkTask_post_process self result_location d0 =
     (let (g, d) = TaskGroup_enter ''post_process'' d0;
          (process_id, d) = operator_call ''metric.generate_process_id''
             [(''retries'', VInt 0)] [] [] d;
          (post_process_metrics, d) = operator_call ''metric.process_metrics''
             [(''retries'', VInt 0)]
             [VXCom process_id, VObj ''task_test_config'',
              opt_obj ''task_metric_config'' (task_metric_config self), VObj ''task_gcp_config'']
             [(''folder_location'', opt_xcom result_location)] d;
          (self, d) =
             (case task_metric_config self of
                None \<Rightarrow> (self, rshift [Task process_id] [Task post_process_metrics] d)
              | Some mc \<Rightarrow>
                 (case profile mc of
                    None \<Rightarrow> (self, rshift [Task process_id] [Task post_process_metrics] d)
                  | Some pr \<Rightarrow>
                     (let (xplane, d) = operator_call ''metric.xplane_to_metrics''
                             [(''retries'', VInt 0)] [file_location pr] [] d;
                          self = self\<lparr>task_metric_config :=
                                   Some (mc\<lparr>profile := Some (pr\<lparr>metrics := VXCom xplane\<rparr>)\<rparr>)\<rparr>;
                          d = rshift [Task process_id] [Task xplane] d;
                          d = rshift [Task xplane] [Task post_process_metrics] d
                      in (self, d))));
          (group, d) = TaskGroup_exit g d
      in ((group, self), d))"

definition XpkTask_run_body ::
  "xpk_task \<Rightarrow> nat option \<Rightarrow> bool \<Rightarrow> bool \<Rightarrow> bool \<Rightarrow> string \<Rightarrow> bool \<Rightarrow> string \<Rightarrow> dag
     \<Rightarrow> ((dagnode \<times> dagnode option) \<times> xpk_task) \<times> dag" where
  "XpkTask_run_body self gcs_location use_vertex_tensorboard use_pathways skip_post_process
       ramdisk_directory mtc_enabled xpk_branch d0 =
     (let ((run_model, gcs_path), d) = XpkTask_run_model self gcs_location
             use_vertex_tensorboard use_pathways ramdisk_directory mtc_enabled xpk_branch d0
      in if \<not> skip_post_process then
           (let ((post_process, self), d) = XpkTask_post_process self (Some gcs_path) d;
                d = rshift [run_model] [post_process] d
            in (((run_model, Some post_process), self), d))
         else (((run_model, None), self), d))"

definition XpkTask_run ::
  "xpk_task \<Rightarrow> nat option \<Rightarrow> bool \<Rightarrow> bool \<Rightarrow> bool \<Rightarrow> string \<Rightarrow> bool \<Rightarrow> string \<Rightarrow> dag
     \<Rightarrow> (dagnode \<times> xpk_task) \<times> dag" where
  "XpkTask_run self gcs_location use_vertex_tensorboard use_pathways skip_post_process
       ramdisk_directory mtc_enabled xpk_branch d0 =
     (let (g, d) = TaskGroup_enter (benchmark_id (task_test_config self)) d0;
          ((stages, self), d) = XpkTask_run_body self gcs_location use_vertex_tensorboard
             use_pathways skip_post_process ramdisk_directory mtc_enabled xpk_branch d;
          (group, d) = TaskGroup_exit g d
      in ((group, self), d))"

definition XpkTask_run_with_run_name_generation ::
  "xpk_task \<Rightarrow> bool \<Rightarrow> string \<Rightarrow> string \<Rightarrow> bool \<Rightarrow> dag
     \<Rightarrow> ((error + dagnode) \<times> xpk_task) \<times> dag" where
  "XpkTask_run_with_run_name_generation self use_pathways xpk_branch run_name_env
       nested_run_name_in_tb_file_location d0 =
     (let (g, d) = TaskGroup_enter (benchmark_id (task_test_config self)) d0;
          (run_name, d) = operator_call ''name_format.generate_run_name'' []
             [VStr (benchmark_id (task_test_config self))] [] d
      in case task_metric_config self of
           None \<Rightarrow> ((Inl AttributeError, self), TaskGroupContext_pop d)
         | Some mc \<Rightarrow>
          (case tensorboard_summary mc of
             None \<Rightarrow> ((Inl AttributeError, self), TaskGroupContext_pop d)
           | Some tb \<Rightarrow>
            (let (tb_file_location, d) = operator_call ''name_format.generate_tb_file_location'' []
                    [VXCom run_name, file_location tb,
                     VBool nested_run_name_in_tb_file_location] [] d;
                 new_run_model_cmds = foldl (\<lambda>cmds cmd. cmds @ [cmd])
                    [[Chars (''export '' @ run_name_env @ ''=''), XComText run_name]]
                    (run_model_cmds (task_test_config self));
                 self = self\<lparr>task_test_config :=
                          (task_test_config self)\<lparr>run_model_cmds := new_run_model_cmds\<rparr>\<rparr>;
                 mc = mc\<lparr>tensorboard_summary := Some (tb\<lparr>file_location := VXCom tb_file_location\<rparr>)\<rparr>;
                 self = self\<lparr>task_metric_config := Some mc\<rparr>
             in case profile mc of
                  Some pr \<Rightarrow>
                   (let (profile_file_location, d) =
                           operator_call ''name_format.generate_profile_file_location'' []
                             [VXCom run_name, file_location pr] [] d;
                        mc = mc\<lparr>profile := Some (pr\<lparr>file_location := VXCom profile_file_location\<rparr>)\<rparr>;
                        self = self\<lparr>task_metric_config := Some mc\<rparr>;
                        ((run_model, gcs_path), d) =
                           XpkTask_run_model self None False use_pathways [] False xpk_branch d;
                        d = rshift [Task run_name]
                              [Task tb_file_location, Task profile_file_location] d;
                        d = rshift [Task tb_file_location, Task profile_file_location]
                              [run_model] d;
                        ((post_process, self), d) = XpkTask_post_process self (Some gcs_path) d;
                        d = rshift [run_model] [post_process] d;
                        (group, d) = TaskGroup_exit g d
                    in ((Inr group, self), d))
                | None \<Rightarrow>
                   (let ((run_model, gcs_path), d) =
                           XpkTask_run_model self None False use_pathways [] False xpk_branch d;
                        d = rshift [Task run_name] [Task tb_file_location] d;
                        d = rshift [Task tb_file_location] [run_model] d;
                        ((post_process, self), d) = XpkTask_post_process self (Some gcs_path) d;
                        d = rshift [run_model] [post_process] d;
                        (group, d) = TaskGroup_exit g d
                    in ((Inr group, self), d)))))"

definition XpkTask_run_with_name_gen_and_quarantine ::
  "(string \<Rightarrow> bool) \<Rightarrow> xpk_task \<Rightarrow> string \<Rightarrow> bool \<Rightarrow> string \<Rightarrow> string \<Rightarrow> bool \<Rightarrow> dag
     \<Rightarrow> ((error + dagnode) \<times> xpk_task) \<times> dag" where
  "XpkTask_run_with_name_gen_and_quarantine is_quarantined self quarantine_task_group
       use_pathways xpk_branch run_name_env nested_run_name_in_tb_file_location d0 =
     (let test_name = benchmark_id (task_test_config self) in
      if is_quarantined test_name then
        (let d = TaskGroupContext_push quarantine_task_group d0;
             (r, d) = XpkTask_run_with_run_name_generation self use_pathways xpk_branch
                run_name_env nested_run_name_in_tb_file_location d
         in (r, TaskGroupContext_pop d))
      else XpkTask_run_with_run_name_generation self use_pathways xpk_branch
             run_name_env nested_run_name_in_tb_file_location d0)"

definition XpkTask_run_default :: "string \<Rightarrow> xpk_task \<Rightarrow> dag \<Rightarrow> (dagnode \<times> xpk_task) \<times> dag" where
  \<comment> \<open>\<^verbatim>\<open>self.run()\<close>, every keyword argument at its default; \<open>MAIN_BRANCH\<close> is the
      constant \<^verbatim>\<open>xpk.MAIN_BRANCH\<close>\<close>
  "XpkTask_run_default MAIN_BRANCH self = XpkTask_run self None False False False [] False MAIN_BRANCH"

subsection \<open>GpuCreateResourceTask\<close>

record gpu_create_resource_task = base_task +
  image_project :: string
  image_family :: string
  gpu_create_timeout :: timedelta
  install_nvidia_drivers :: bool
  existing_instance_name :: "string option"
  reservation :: bool

definition GpuCreateResourceTask_provision ::
  "gpu_create_resource_task \<Rightarrow> dag \<Rightarrow> (dagnode \<times> nat \<times> nat \<times> nat \<times> nat) \<times> dag" where
  "GpuCreateResourceTask_provision self d0 =
     (let (g, d) = TaskGroup_enter ''provision'' d0;
          (g_initialize, d) = TaskGroup_enter ''initialize'' d;
          (gpu_name, d) = operator_call ''gpu.generate_gpu_name'' [] [] [] d;
          (ssh_keys, d) = operator_call ''ssh.generate_ssh_keys'' [] [] [] d;
          (gcs_location, d) = operator_call ''name_format.generate_gcs_folder_location'' []
             [VStr (gcs_subfolder (task_test_config self)),
              VStr (benchmark_id (task_test_config self))] [] d;
          (initialize, d) = TaskGroup_exit g_initialize d;
          (ip_address, d) = operator_call ''gpu.create_resource'' []
             [VXCom gpu_name, VStr (image_project self), VStr (image_family self),
              VObj ''task_test_config.accelerator'', VObj ''task_gcp_config'', VXCom ssh_keys]
             [(''timeout'', VTimedelta (gpu_create_timeout self)),
              (''install_nvidia_drivers'', VBool (install_nvidia_drivers self)),
              (''reservation'', VBool (reservation self))] d;
          (setup, d) = operator_call ''gpu.ssh_host'' [(''task_id'', VStr ''setup'')]
             [VXCom ip_address, VStr (setup_script (task_test_config self)), VXCom ssh_keys] [] d;
          d = rshift [Task ip_address] [Task setup] d;
          (group, d) = TaskGroup_exit g d
      in ((group, ip_address, gpu_name, ssh_keys, gcs_location), d))"

definition GpuCreateResourceTask_provision_via_existing_instance ::
  "gpu_create_resource_task \<Rightarrow> dag \<Rightarrow> (dagnode \<times> nat \<times> nat \<times> nat) \<times> dag" where
  "GpuCreateResourceTask_provision_via_existing_instance self d0 =
     (let (g, d) = TaskGroup_enter ''provision'' d0;
          (ssh_keys, d) = operator_call ''ssh.generate_ssh_keys'' [] [] [] d;
          (ip_address, d) = operator_call ''gpu.get_existing_resource'' [] []
             [(''instance_name'', opt_str (existing_instance_name self)),
              (''ssh_keys'', VXCom ssh_keys),
              (''gcp'', VObj ''task_gcp_config'')] d;
          (gcs_location, d) = operator_call ''name_format.generate_gcs_folder_location'' []
             [VStr (gcs_subfolder (task_test_config self)),
              VStr (benchmark_id (task_test_config self))] [] d;
          (group, d) = TaskGroup_exit g d
      in ((group, ip_address, ssh_keys, gcs_location), d))"

definition GpuCreateResourceTask_run_model ::
  "gpu_create_resource_task \<Rightarrow> nat \<Rightarrow> nat \<Rightarrow> val \<Rightarrow> dag \<Rightarrow> dagnode \<times> dag" where
  "GpuCreateResourceTask_run_model self resource ssh_keys env d0 =
     (let (run_model, d) = operator_call ''gpu.ssh_host''
             [(''task_id'', VStr ''run_model''),
              (''execution_timeout'', VTimedelta (timeout (task_test_config self))),
              (''owner'', VStr (task_owner (task_test_config self)))]
             [VXCom resource, VStr (test_script (task_test_config self)), VXCom ssh_keys, env]
             [] d0
      in (Task run_model, d))"

definition GpuCreateResourceTask_post_process ::
  "gpu_create_resource_task \<Rightarrow> nat option \<Rightarrow> dag \<Rightarrow> dagnode \<times> dag" where
  "GpuCreateResourceTask_post_process self result_location d0 =
     (let (g, d) = TaskGroup_enter ''post_process'' d0;
          (process_id, d) = operator_call ''metric.generate_process_id''
             [(''retries'', VInt 0)] [] [] d;
          (process_metrics, d) = operator_call ''metric.process_metrics''
             [(''retries'', VInt 0)]
             [VXCom process_id, VObj ''task_test_config'',
              opt_obj ''task_metric_config'' (task_metric_config self), VObj ''task_gcp_config'']
             [(''folder_location'', opt_xcom result_location)] d
      in TaskGroup_exit g d)"

definition GpuCreateResourceTask_clean_up ::
  "gpu_create_resource_task \<Rightarrow> nat \<Rightarrow> string \<Rightarrow> string \<Rightarrow> dag \<Rightarrow> dagnode \<times> dag" where
  "GpuCreateResourceTask_clean_up self resource project_id zone' d0 =
     (let (clean_up, d) = operator_call ''gpu.delete_resource''
             [(''group_id'', VStr ''clean_up'')]
             [VXCom resource, VStr project_id, VStr zone'] [] d0
      in (Task clean_up, d))"

definition GpuCreateResourceTask_clean_up_existing_instance ::
  "gpu_create_resource_task \<Rightarrow> nat \<Rightarrow> dag \<Rightarrow> dagnode \<times> dag" where
  "GpuCreateResourceTask_clean_up_existing_instance self ssh_keys d0 =
     (let (clean_up, d) = operator_call ''gpu.clean_up_ssh_keys'' [] []
             [(''instance_name'', opt_str (existing_instance_name self)),
              (''ssh_keys'', VXCom ssh_keys),
              (''gcp'', VObj ''task_gcp_config'')] d0
      in (Task clean_up, d))"

definition use_gcs_env :: "metric_config option \<Rightarrow> bool" where
  \<comment> \<open>\<^verbatim>\<open>self.task_metric_config and
      self.task_metric_config.use_runtime_generated_gcs_folder\<close>\<close>
  "use_gcs_env mc = (case mc of None \<Rightarrow> False | Some m \<Rightarrow> use_runtime_generated_gcs_folder m)"

definition GpuCreateResourceTask_run_with_existing_instance_body ::
  "gpu_create_resource_task \<Rightarrow> dag \<Rightarrow> (dagnode \<times> dagnode \<times> dagnode \<times> dagnode) \<times> dag" where
  "GpuCreateResourceTask_run_with_existing_instance_body self d0 =
     (let ((provision, ip_address, ssh_keys, gcs_location), d) =
             GpuCreateResourceTask_provision_via_existing_instance self d0;
          env_variable =
             (if use_gcs_env (task_metric_config self)
              then VDict [(GCS_OUTPUT, VXCom gcs_location)] else VNone);
          (post_process, d) = GpuCreateResourceTask_post_process self (Some gcs_location) d;
          (run_model, d) = GpuCreateResourceTask_run_model self ip_address ssh_keys env_variable d;
          (clean_up, d) = GpuCreateResourceTask_clean_up_existing_instance self ssh_keys d;
          d = rshift [provision] [run_model] d;
          d = rshift [run_model] [post_process] d;
          d = rshift [post_process] [clean_up] d
      in ((provision, run_model, post_process, clean_up), d))"

definition GpuCreateResourceTask_run_with_existing_instance ::
  "gpu_create_resource_task \<Rightarrow> dag \<Rightarrow> dagnode \<times> dag" where
  "GpuCreateResourceTask_run_with_existing_instance self d0 =
     (let (g, d) = TaskGroup_enter (benchmark_id (task_test_config self)) d0;
          (stages, d) = GpuCreateResourceTask_run_with_existing_instance_body self d
      in TaskGroup_exit g d)"

definition GpuCreateResourceTask_run_body ::
  "gpu_create_resource_task \<Rightarrow> dag \<Rightarrow> (dagnode \<times> dagnode \<times> dagnode \<times> dagnode) \<times> dag" where
  "GpuCreateResourceTask_run_body self d0 =
     (let ((provision, ip_address, instance_name, ssh_keys, gcs_location), d) =
             GpuCreateResourceTask_provision self d0;
          env_variable =
             (if use_gcs_env (task_metric_config self)
              then VDict [(GCS_OUTPUT, VXCom gcs_location)] else VNone);
          (run_model, d) = GpuCreateResourceTask_run_model self ip_address ssh_keys env_variable d;
          (post_process, d) = GpuCreateResourceTask_post_process self (Some gcs_location) d;
          (clean_up, d) = GpuCreateResourceTask_clean_up self instance_name
             (project_name (task_gcp_config self)) (zone (task_gcp_config self)) d;
          d = rshift [provision] [run_model] d;
          d = rshift [run_model] [post_process] d;
          d = rshift [post_process] [clean_up] d
      in ((provision, run_model, post_process, clean_up), d))"

definition GpuCreateResourceTask_run ::
  "gpu_create_resource_task \<Rightarrow> dag \<Rightarrow> dagnode \<times> dag" where
  "GpuCreateResourceTask_run self d0 =
     (if existing_instance_name self \<noteq> None
      then GpuCreateResourceTask_run_with_existing_instance self d0
      else (let (g, d) = TaskGroup_enter (benchmark_id (task_test_config self)) d0;
                (stages, d) = GpuCreateResourceTask_run_body self d
            in TaskGroup_exit g d))"

subsection \<open>GpuGkeTask\<close>

record gpu_gke_task = base_task +
  task_cluster_name :: string
  job_create_timeout :: timedelta

text \<open>
  \<open>task_cluster_name\<close> is the attribute \<^verbatim>\<open>cluster_name\<close> of \<^verbatim>\<open>GpuGkeTask\<close>.
  \<^verbatim>\<open>shlex.split\<close> belongs to the standard library: it is a parameter, and it
  raises \<^verbatim>\<open>ValueError\<close> on a string it cannot tokenise.
\<close>

definition GpuGkeTask_get_job_manifest ::
  "(string \<Rightarrow> error + string list) \<Rightarrow> gpu_gke_task \<Rightarrow> error + json" where
  "GpuGkeTask_get_job_manifest shlex_split self =
     (let accelerator' = accelerator (task_test_config self);
          activeDeadlineSeconds =
            (if total_seconds_int (timeout (task_test_config self)) \<noteq> 0
             then total_seconds_int (timeout (task_test_config self)) else 3600)
      in case shlex_split (setup_script (task_test_config self)) of
           Inl e \<Rightarrow> Inl e
         | Inr command \<Rightarrow>
          (case shlex_split (test_script (task_test_config self)) of
             Inl e \<Rightarrow> Inl e
           | Inr args' \<Rightarrow> Inr (JDict
              [(''apiVersion'', JStr ''batch/v1''),
               (''kind'', JStr ''Job''),
               (''metadata'', JDict
                 [(''generateName'', JStr (test_name (task_test_config self))),
                  (''labels'', JDict
                    [(''accelerator'', JStr (name accelerator')),
                     (''benchmarkId'', JStr (benchmark_id (task_test_config self)))])]),
               (''spec'', JDict
                 [(''activeDeadlineSeconds'', JInt activeDeadlineSeconds),
                  (''backoffLimit'', JInt 0),
                  (''completionMode'', JStr ''Indexed''),
                  (''completions'', JInt (num_hosts (task_test_config self))),
                  (''parallelism'', JInt (num_hosts (task_test_config self))),
                  (''template'', JDict
                    [(''metadata'', JDict
                       [(''labels'', JDict [(''headless-svc'', JStr ''true'')])]),
                     (''spec'', JDict
                       [(''subdomain'', JStr ''headless-svc''),
                        (''nodeSelector'', JDict
                          [(''cloud.google.com/gke-accelerator'',
                            JStr (accelerator_type accelerator'))]),
                        (''restartPolicy'', JStr ''Never''),
                        (''containers'', JList
                          [JDict
                            [(''name'', JStr ''main''),
                             (''image'', JStr (docker_image (task_test_config self))),
                             (''imagePullPolicy'', JStr ''Always''),
                             (''command'', JList (map JStr command)),
                             (''args'', JList (map JStr args')),
                             (''resources'', JDict
                               [(''limits'', JDict
                                  [(''nvidia.com/gpu'', JInt (count accelerator'))])]),
                             (''env'', JList
                               [JDict
                                 [(''name'', JStr ''POD_NAME''),
                                  (''valueFrom'', JDict
                                    [(''fieldRef'', JDict
                                       [(''fieldPath'', JStr ''metadata.name'')])])],
                                JDict
                                 [(''name'', JStr ''POD_NAMESPACE''),
                                  (''valueFrom'', JDict
                                    [(''fieldRef'', JDict
                                       [(''fieldPath'', JStr ''metadata.namespace'')])])],
                                JDict
                                 [(''name'', JStr ''JOB_NAME''),
                                  (''valueFrom'', JDict
                                    [(''fieldRef'', JDict
                                       [(''fieldPath'',
                                         JStr (''metadata.labels['' @ [CHR 0x27] @ ''job-name''
                                               @ [CHR 0x27] @ '']''))])])]]),
                             (''volumeMounts'', JList
                               [JDict
                                 [(''mountPath'', JStr ''/dev/shm''),
                                  (''name'', JStr ''dshm''),
                                  (''readOnly'', JBool False)]])]]),
                        (''volumes'', JList
                          [JDict
                            [(''emptyDir'', JDict [(''medium'', JStr ''Memory'')]),
                             (''name'', JStr ''dshm'')]])])])])])))"

definition GpuGkeTask_post_process ::
  "gpu_gke_task \<Rightarrow> nat option \<Rightarrow> dag \<Rightarrow> dagnode \<times> dag" where
  "GpuGkeTask_post_process self result_location d0 =
     (let (g, d) = TaskGroup_enter ''post_process'' d0;
          (process_id, d) = operator_call ''metric.generate_process_id''
             [(''retries'', VInt 0)] [] [] d;
          (process_metrics, d) = operator_call ''metric.process_metrics''
             [(''retries'', VInt 0)]
             [VXCom process_id, VObj ''task_test_config'',
              opt_obj ''task_metric_config'' (task_metric_config self), VObj ''task_gcp_config'']
             [(''folder_location'', opt_xcom result_location)] d
      in TaskGroup_exit g d)"

definition GpuGkeTask_run_body ::
  "(string \<Rightarrow> error + string list) \<Rightarrow> gpu_gke_task \<Rightarrow> dag
     \<Rightarrow> (error + dagnode \<times> dagnode \<times> dagnode) \<times> dag" where
  "GpuGkeTask_run_body shlex_split self d0 =
     (let (gcs_location, d) = operator_call ''name_format.generate_gcs_folder_location'' []
             [VStr (gcs_subfolder (task_test_config self)),
              VStr (benchmark_id (task_test_config self))] [] d0
      in case GpuGkeTask_get_job_manifest shlex_split self of
           Inl e \<Rightarrow> (Inl e, d)
         | Inr job_body \<Rightarrow>
          (let (gke_run, d) = operator_call ''gke.run_job'' [(''group_id'', VStr ''run_model'')]
                  [VJson job_body, VObj ''task_gcp_config'', VStr (task_cluster_name self),
                   VTimedelta (job_create_timeout self), VXCom gcs_location] [] d;
               (post_process, d) = GpuGkeTask_post_process self (Some gcs_location) d;
               d = rshift [Task gcs_location] [Task gke_run] d;
               d = rshift [Task gke_run] [post_process] d
           in (Inr (Task gcs_location, Task gke_run, post_process), d)))"

definition GpuGkeTask_run ::
  "(string \<Rightarrow> error + string list) \<Rightarrow> gpu_gke_task \<Rightarrow> dag \<Rightarrow> (error + dagnode) \<times> dag" where
  "GpuGkeTask_run shlex_split self d0 =
     (let (g, d) = TaskGroup_enter (benchmark_id (task_test_config self)) d0;
          (r, d) = GpuGkeTask_run_body shlex_split self d;
          (group, d) = TaskGroup_exit g d
      in (case r of Inl e \<Rightarrow> (Inl e, d) | Inr stages \<Rightarrow> (Inr group, d)))"

datatype step = Key string | Idx nat

fun jget :: "json \<Rightarrow> step list \<Rightarrow> json option" where
  "jget j [] = Some j"
| "jget (JDict kvs) (Key k # p) = (case map_of kvs k of None \<Rightarrow> None | Some j \<Rightarrow> jget j p)"
| "jget (JList js) (Idx i # p) = (if i < length js then jget (js ! i) p else None)"
| "jget _ _ = None"

section \<open>Well-formed graphs and stage order\<close>

definition wf_dag :: "dag \<Rightarrow> bool" where
  "wf_dag d = (\<forall>e \<in> set (edges d). fst e < length (tasks d) \<and> snd e < length (tasks d))"

definition dag0 :: dag where
  "dag0 = \<lparr>tasks = [], edges = [], ctx = []\<rparr>"

definition ext :: "dag \<Rightarrow> task list \<Rightarrow> (nat \<times> nat) list \<Rightarrow> string list \<Rightarrow> dag" where
  \<comment> \<open>the graph \<open>d\<close> with more nodes and more edges, and \<open>c\<close> the open groups\<close>
  "ext d ts es c = \<lparr>tasks = tasks d @ ts, edges = edges d @ es, ctx = c\<rparr>"

definition new_node :: "dag \<Rightarrow> dagnode \<Rightarrow> bool" where
  "new_node d x = (\<forall>m \<in> set (members x). length (tasks d) \<le> m)"

definition before :: "dag \<Rightarrow> dagnode \<Rightarrow> dagnode \<Rightarrow> bool" where
  \<comment> \<open>every node of \<open>a\<close> is upstream, directly or not, of every node of \<open>b\<close>\<close>
  "before d a b =
     (\<forall>u \<in> set (members a). \<forall>v \<in> set (members b). (u, v) \<in> (set (edges d))\<^sup>+)"

definition never_before :: "dag \<Rightarrow> dagnode \<Rightarrow> dagnode \<Rightarrow> bool" where
  \<comment> \<open>no node of \<open>a\<close> is upstream of a node of \<open>b\<close>\<close>
  "never_before d a b =
     (\<forall>u \<in> set (members a). \<forall>v \<in> set (members b). (u, v) \<notin> (set (edges d))\<^sup>+)"

fun stage_rank :: "dagnode list \<Rightarrow> nat \<Rightarrow> nat" where
  \<comment> \<open>the position, counted from 1, of the first stage that holds node \<open>t\<close>; 0 when none does\<close>
  "stage_rank [] t = 0"
| "stage_rank (s # ss) t =
     (if t \<in> set (members s) then 1
      else (case stage_rank ss t of 0 \<Rightarrow> 0 | Suc k \<Rightarrow> Suc (Suc k)))"

fun monotone_edges :: "dagnode list \<Rightarrow> (nat \<times> nat) list \<Rightarrow> bool" where
  \<comment> \<open>no edge leads from a stage to an earlier one, or from a stage to a node of no stage\<close>
  "monotone_edges stages [] = True"
| "monotone_edges stages (e # es) =
     (stage_rank stages (fst e) \<le> stage_rank stages (snd e) \<and> monotone_edges stages es)"

definition stage_order :: "dag \<Rightarrow> dagnode list \<Rightarrow> bool" where
  \<comment> \<open>the stages are non-empty and disjoint, each is wholly upstream of the next, and no
      edge of the graph leads from a stage to an earlier one or out of the stages\<close>
  "stage_order d stages =
     (list_all (\<lambda>s. members s \<noteq> []) stages \<and>
      distinct (concat (map members stages)) \<and>
      successively (before d) stages \<and>
      monotone_edges stages (edges d))"

fun descendants :: "(nat \<times> nat) list \<Rightarrow> nat \<Rightarrow> nat list \<Rightarrow> nat list" where
  \<comment> \<open>the nodes reached from \<open>xs\<close> in at most \<open>k\<close> steps, one at least\<close>
  "descendants es 0 xs = []"
| "descendants es (Suc k) xs =
     (let ys = concat (map (downstream_task_ids es) xs) in ys @ descendants es k ys)"

fun reach_all :: "(nat \<times> nat) list \<Rightarrow> nat \<Rightarrow> nat list \<Rightarrow> nat list \<Rightarrow> bool" where
  \<comment> \<open>every node of \<open>vs\<close> is reached from every node of \<open>us\<close> in at most \<open>k\<close> steps\<close>
  "reach_all es k [] vs = True"
| "reach_all es k (u # us) vs = (set vs \<subseteq> set (descendants es k [u]) \<and> reach_all es k us vs)"

definition stage_operators :: "dag \<Rightarrow> dagnode \<Rightarrow> string list" where
  "stage_operators d s = map (\<lambda>t. operator (tasks d ! t)) (members s)"

section \<open>The composed graphs, written out\<close>

definition queued_resource_edges :: "nat \<Rightarrow> (nat \<times> nat) list" where
  "queued_resource_edges n =
     [(n, n + 3), (n + 1, n + 3), (n + 3, n + 4), (n + 1, n + 4), (n + 3, n + 4),
      (n + 3, n + 5), (n + 1, n + 5), (n + 2, n + 5),
      (n + 6, n + 7), (n + 2, n + 7), (n + 3, n + 8),
      (n + 2, n + 5), (n + 4, n + 5), (n + 5, n + 6), (n + 7, n + 8)]"

definition queued_resource_tasks ::
  "test_config \<Rightarrow> metric_config option \<Rightarrow> timedelta \<Rightarrow> bool \<Rightarrow> bool \<Rightarrow> string list \<Rightarrow> nat
     \<Rightarrow> task list" where
  "queued_resource_tasks tc mc tmo ev aw c n =
     [\<lparr>task_group = c @ [''provision'', ''initialize''],
       operator = ''tpu.generate_tpu_name'', override = [],
       args = [VStr (benchmark_id tc), VBool ev], kwargs = []\<rparr>,
      \<lparr>task_group = c @ [''provision'', ''initialize''],
       operator = ''ssh.generate_ssh_keys'', override = [], args = [], kwargs = []\<rparr>,
      \<lparr>task_group = c @ [''provision'', ''initialize''],
       operator = ''name_format.generate_gcs_folder_location'', override = [],
       args = [VStr (gcs_subfolder tc), VStr (benchmark_id tc)], kwargs = []\<rparr>,
      \<lparr>task_group = c @ [''provision''],
       operator = ''tpu.create_queued_resource'', override = [],
       args = [VXCom n, VObj ''task_gcp_config'', VXCom (n + 1), VTimedelta tmo,
               VObj ''task_test_config''], kwargs = []\<rparr>,
      \<lparr>task_group = c @ [''provision''],
       operator = ''tpu.ssh_tpu'', override = [(''task_id'', VStr ''setup'')],
       args = [VXCom (n + 3), VStr (setup_script tc), VXCom (n + 1),
               VBool (startswith (test_name tc) ''tf_'' \<or> aw)],
       kwargs = []\<rparr>,
      \<lparr>task_group = c,
       operator = ''tpu.ssh_tpu'',
       override = [(''task_id'', VStr ''run_model''),
                   (''execution_timeout'', VTimedelta (timeout tc)),
                   (''owner'', VStr (task_owner tc))],
       args = [VXCom (n + 3), VStr (test_script tc), VXCom (n + 1), VBool aw],
       kwargs = [(''env'', VDict [(GCS_OUTPUT, VXCom (n + 2))])]\<rparr>,
      \<lparr>task_group = c @ [''post_process''],
       operator = ''metric.generate_process_id'', override = [(''retries'', VInt 0)],
       args = [], kwargs = []\<rparr>,
      \<lparr>task_group = c @ [''post_process''],
       operator = ''metric.process_metrics'', override = [(''retries'', VInt 0)],
       args = [VXCom (n + 6), VObj ''task_test_config'', opt_obj ''task_metric_config'' mc,
               VObj ''task_gcp_config''],
       kwargs = [(''folder_location'', VXCom (n + 2))]\<rparr>,
      \<lparr>task_group = c,
       operator = ''tpu.delete_queued_resource'',
       override = [(''group_id'', VStr ''clean_up'')],
       args = [VXCom (n + 3)], kwargs = []\<rparr>]"

definition gpu_env :: "gpu_create_resource_task \<Rightarrow> nat \<Rightarrow> val" where
  "gpu_env self gcs_location =
     (if use_gcs_env (task_metric_config self)
      then VDict [(GCS_OUTPUT, VXCom gcs_location)] else VNone)"

definition gpu_run_edges :: "gpu_create_resource_task \<Rightarrow> nat \<Rightarrow> (nat \<times> nat) list" where
  "gpu_run_edges self n =
     [(n, n + 3), (n + 1, n + 3), (n + 3, n + 4), (n + 1, n + 4), (n + 3, n + 4),
      (n + 3, n + 5), (n + 1, n + 5)] @
     (if use_gcs_env (task_metric_config self) then [(n + 2, n + 5)] else []) @
     [(n + 6, n + 7), (n + 2, n + 7), (n, n + 8),
      (n + 2, n + 5), (n + 4, n + 5), (n + 5, n + 6), (n + 7, n + 8)]"

definition gpu_run_tasks :: "gpu_create_resource_task \<Rightarrow> string list \<Rightarrow> nat \<Rightarrow> task list" where
  "gpu_run_tasks self c n =
     [\<lparr>task_group = c @ [''provision'', ''initialize''],
       operator = ''gpu.generate_gpu_name'', override = [], args = [], kwargs = []\<rparr>,
      \<lparr>task_group = c @ [''provision'', ''initialize''],
       operator = ''ssh.generate_ssh_keys'', override = [], args = [], kwargs = []\<rparr>,
      \<lparr>task_group = c @ [''provision'', ''initialize''],
       operator = ''name_format.generate_gcs_folder_location'', override = [],
       args = [VStr (gcs_subfolder (task_test_config self)),
               VStr (benchmark_id (task_test_config self))], kwargs = []\<rparr>,
      \<lparr>task_group = c @ [''provision''],
       operator = ''gpu.create_resource'', override = [],
       args = [VXCom n, VStr (image_project self), VStr (image_family self),
               VObj ''task_test_config.accelerator'', VObj ''task_gcp_config'', VXCom (n + 1)],
       kwargs = [(''timeout'', VTimedelta (gpu_create_timeout self)),
                 (''install_nvidia_drivers'', VBool (install_nvidia_drivers self)),
                 (''reservation'', VBool (reservation self))]\<rparr>,
      \<lparr>task_group = c @ [''provision''],
       operator = ''gpu.ssh_host'', override = [(''task_id'', VStr ''setup'')],
       args = [VXCom (n + 3), VStr (setup_script (task_test_config self)), VXCom (n + 1)],
       kwargs = []\<rparr>,
      \<lparr>task_group = c,
       operator = ''gpu.ssh_host'',
       override = [(''task_id'', VStr ''run_model''),
                   (''execution_timeout'', VTimedelta (timeout (task_test_config self))),
                   (''owner'', VStr (task_owner (task_test_config self)))],
       args = [VXCom (n + 3), VStr (test_script (task_test_config self)), VXCom (n + 1),
               gpu_env self (n + 2)],
       kwargs = []\<rparr>,
      \<lparr>task_group = c @ [''post_process''],
       operator = ''metric.generate_process_id'', override = [(''retries'', VInt 0)],
       args = [], kwargs = []\<rparr>,
      \<lparr>task_group = c @ [''post_process''],
       operator = ''metric.process_metrics'', override = [(''retries'', VInt 0)],
       args = [VXCom (n + 6), VObj ''task_test_config'',
               opt_obj ''task_metric_config'' (task_metric_config self),
               VObj ''task_gcp_config''],
       kwargs = [(''folder_location'', VXCom (n + 2))]\<rparr>,
      \<lparr>task_group = c,
       operator = ''gpu.delete_resource'',
       override = [(''group_id'', VStr ''clean_up'')],
       args = [VXCom n, VStr (project_name (task_gcp_config self)),
               VStr (zone (task_gcp_config self))], kwargs = []\<rparr>]"

definition gpu_existing_edges :: "gpu_create_resource_task \<Rightarrow> nat \<Rightarrow> (nat \<times> nat) list" where
  "gpu_existing_edges self n =
     [(n, n + 1), (n + 3, n + 4), (n + 2, n + 4), (n + 1, n + 5), (n, n + 5)] @
     (if use_gcs_env (task_metric_config self) then [(n + 2, n + 5)] else []) @
     [(n, n + 6), (n + 1, n + 5), (n + 2, n + 5), (n + 5, n + 3), (n + 4, n + 6)]"

definition gpu_existing_tasks :: "gpu_create_resource_task \<Rightarrow> string list \<Rightarrow> nat \<Rightarrow> task list" where
  "gpu_existing_tasks self c n =
     [\<lparr>task_group = c @ [''provision''],
       operator = ''ssh.generate_ssh_keys'', override = [], args = [], kwargs = []\<rparr>,
      \<lparr>task_group = c @ [''provision''],
       operator = ''gpu.get_existing_resource'', override = [], args = [],
       kwargs = [(''instance_name'', opt_str (existing_instance_name self)),
                 (''ssh_keys'', VXCom n),
                 (''gcp'', VObj ''task_gcp_config'')]\<rparr>,
      \<lparr>task_group = c @ [''provision''],
       operator = ''name_format.generate_gcs_folder_location'', override = [],
       args = [VStr (gcs_subfolder (task_test_config self)),
               VStr (benchmark_id (task_test_config self))], kwargs = []\<rparr>,
      \<lparr>task_group = c @ [''post_process''],
       operator = ''metric.generate_process_id'', override = [(''retries'', VInt 0)],
       args = [], kwargs = []\<rparr>,
      \<lparr>task_group = c @ [''post_process''],
       operator = ''metric.process_metrics'', override = [(''retries'', VInt 0)],
       args = [VXCom (n + 3), VObj ''task_test_config'',
               opt_obj ''task_metric_config'' (task_metric_config self),
               VObj ''task_gcp_config''],
       kwargs = [(''folder_location'', VXCom (n + 2))]\<rparr>,
      \<lparr>task_group = c,
       operator = ''gpu.ssh_host'',
       override = [(''task_id'', VStr ''run_model''),
                   (''execution_timeout'', VTimedelta (timeout (task_test_config self))),
                   (''owner'', VStr (task_owner (task_test_config self)))],
       args = [VXCom (n + 1), VStr (test_script (task_test_config self)), VXCom n,
               gpu_env self (n + 2)],
       kwargs = []\<rparr>,
      \<lparr>task_group = c,
       operator = ''gpu.clean_up_ssh_keys'', override = [], args = [],
       kwargs = [(''instance_name'', opt_str (existing_instance_name self)),
                 (''ssh_keys'', VXCom n),
                 (''gcp'', VObj ''task_gcp_config'')]\<rparr>]"

definition gke_edges :: "nat \<Rightarrow> (nat \<times> nat) list" where
  "gke_edges n = [(n, n + 1), (n + 2, n + 3), (n, n + 3), (n, n + 1), (n + 1, n + 2)]"

definition gke_tasks :: "gpu_gke_task \<Rightarrow> json \<Rightarrow> string list \<Rightarrow> nat \<Rightarrow> task list" where
  "gke_tasks self job_body c n =
     [\<lparr>task_group = c,
       operator = ''name_format.generate_gcs_folder_location'', override = [],
       args = [VStr (gcs_subfolder (task_test_config self)),
               VStr (benchmark_id (task_test_config self))], kwargs = []\<rparr>,
      \<lparr>task_group = c,
       operator = ''gke.run_job'', override = [(''group_id'', VStr ''run_model'')],
       args = [VJson job_body, VObj ''task_gcp_config'', VStr (task_cluster_name self),
               VTimedelta (job_create_timeout self), VXCom n], kwargs = []\<rparr>,
      \<lparr>task_group = c @ [''post_process''],
       operator = ''metric.generate_process_id'', override = [(''retries'', VInt 0)],
       args = [], kwargs = []\<rparr>,
      \<lparr>task_group = c @ [''post_process''],
       operator = ''metric.process_metrics'', override = [(''retries'', VInt 0)],
       args = [VXCom (n + 2), VObj ''task_test_config'',
               opt_obj ''task_metric_config'' (task_metric_config self),
               VObj ''task_gcp_config''],
       kwargs = [(''folder_location'', VXCom n)]\<rparr>]"

section \<open>Example inputs\<close>

definition example_gke_task :: gpu_gke_task where
  "example_gke_task =
     \<lparr>task_test_config =
        \<lparr>test_name = ''job'', benchmark_id = ''job-bench'', gcs_subfolder = ''out'',
         setup_script = ''bash'', test_script = ''run.sh'', timeout = 0, task_owner = ''owner'',
         run_model_cmds = [], cluster_name = ''c'', docker_image = ''img'',
         accelerator = \<lparr>name = ''h100'', accelerator_type = ''nvidia-h100-80gb'', count = 8\<rparr>,
         num_slices = 1, num_hosts = 4\<rparr>,
      task_gcp_config = \<lparr>project_name = ''p'', zone = ''us-central1-a''\<rparr>,
      task_metric_config = None,
      task_cluster_name = ''gke'', job_create_timeout = minutes 10\<rparr>"

definition example_gke_task_90min :: gpu_gke_task where
  \<comment> \<open>a timeout of 1 h 30 min and half a second\<close>
  "example_gke_task_90min =
     example_gke_task\<lparr>task_test_config :=
       (task_test_config example_gke_task)\<lparr>timeout := 5400500000\<rparr>\<rparr>"

definition example_gke_task_long :: gpu_gke_task where
  \<comment> \<open>\<^verbatim>\<open>timedelta(seconds=2**34, microseconds=999999)\<close>\<close>
  "example_gke_task_long =
     example_gke_task\<lparr>task_test_config :=
       (task_test_config example_gke_task)\<lparr>timeout := 17179869184999999\<rparr>\<rparr>"

definition words1 :: "string \<Rightarrow> error + string list" where
  "words1 s = Inr [s]"

definition tf_test_config :: test_config where
  "tf_test_config =
     \<lparr>test_name = ''tf_resnet'', benchmark_id = ''tf_resnet-v4-8'', gcs_subfolder = ''out'',
      setup_script = ''pip install'', test_script = ''python3 run.py'', timeout = minutes 60,
      task_owner = ''owner'', run_model_cmds = [[Chars ''python3 run.py'']],
      cluster_name = ''cluster'', docker_image = ''image'',
      accelerator = \<lparr>name = ''v4-8'', accelerator_type = ''tpu-v4'', count = 4\<rparr>,
      num_slices = 1, num_hosts = 1\<rparr>"

definition example_gcp_config :: gcp_config where
  "example_gcp_config = \<lparr>project_name = ''project'', zone = ''us-central2-b''\<rparr>"

definition example_gpu_task :: gpu_create_resource_task where
  "example_gpu_task =
     \<lparr>task_test_config = tf_test_config, task_gcp_config = example_gcp_config,
      task_metric_config = None, image_project = ''images'', image_family = ''family'',
      gpu_create_timeout = minutes 60, install_nvidia_drivers = False,
      existing_instance_name = None, reservation = False\<rparr>"

definition example_existing_gpu_task :: gpu_create_resource_task where
  "example_existing_gpu_task = example_gpu_task\<lparr>existing_instance_name := Some ''vm-1''\<rparr>"

section \<open>Symbolic execution of the composing functions\<close>

lemma ext_start: "ext d [] [] (ctx d) = d"
  by (simp add: ext_def)

lemma ext_sel [simp]:
  "tasks (ext d ts es c) = tasks d @ ts"
  "edges (ext d ts es c) = edges d @ es"
  "ctx (ext d ts es c) = c"
  by (simp_all add: ext_def)

lemma ext_inject [simp]:
  "(ext d ts es c = ext d ts' es' c') = (ts = ts' \<and> es = es' \<and> c = c')"
  by (auto simp: ext_def)

lemma operator_call_ext:
  "operator_call op ov as kw (ext d ts es c) =
     (length (tasks d) + length ts,
      ext d (ts @ [\<lparr>task_group = c, operator = op, override = ov, args = as, kwargs = kw\<rparr>])
            (es @ map (\<lambda>u. (u, length (tasks d) + length ts))
                      (concat (map xcom_refs (as @ map snd kw)))) c)"
  by (simp add: operator_call_def ext_def Let_def)

lemma TaskGroupContext_push_ext:
  "TaskGroupContext_push g (ext d ts es c) = ext d ts es (c @ [g])"
  by (simp add: TaskGroupContext_push_def ext_def)

lemma TaskGroupContext_pop_ext:
  "TaskGroupContext_pop (ext d ts es c) = ext d ts es (butlast c)"
  by (simp add: TaskGroupContext_pop_def ext_def)

lemma TaskGroup_enter_ext:
  "TaskGroup_enter g (ext d ts es c) = (length (tasks d) + length ts, ext d ts es (c @ [g]))"
  by (simp add: TaskGroup_enter_def TaskGroupContext_push_ext)

lemma TaskGroup_exit_ext:
  "TaskGroup_exit n0 (ext d ts es c) =
     (Group [n0..<length (tasks d) + length ts], ext d ts es (butlast c))"
  by (simp add: TaskGroup_exit_def TaskGroupContext_pop_ext)

lemma downstream_old:
  "wf_dag d \<Longrightarrow> length (tasks d) \<le> t \<Longrightarrow> downstream_task_ids (edges d) t = []"
  by (auto simp: wf_dag_def downstream_task_ids_def filter_empty_conv)

lemma upstream_old:
  "wf_dag d \<Longrightarrow> length (tasks d) \<le> t \<Longrightarrow> upstream_task_ids (edges d) t = []"
  by (auto simp: wf_dag_def upstream_task_ids_def filter_empty_conv)

lemma downstream_append:
  "downstream_task_ids (es @ es') t = downstream_task_ids es t @ downstream_task_ids es' t"
  by (simp add: downstream_task_ids_def)

lemma upstream_append:
  "upstream_task_ids (es @ es') t = upstream_task_ids es t @ upstream_task_ids es' t"
  by (simp add: upstream_task_ids_def)

lemma downstream_Cons:
  "downstream_task_ids (e # es) t =
     (if fst e = t then [snd e] else []) @ downstream_task_ids es t"
  by (simp add: downstream_task_ids_def)

lemma upstream_Cons:
  "upstream_task_ids (e # es) t =
     (if snd e = t then [fst e] else []) @ upstream_task_ids es t"
  by (simp add: upstream_task_ids_def)

lemma downstream_Nil: "downstream_task_ids [] t = []"
  by (simp add: downstream_task_ids_def)

lemma upstream_Nil: "upstream_task_ids [] t = []"
  by (simp add: upstream_task_ids_def)

lemma get_leaves_ext:
  "wf_dag d \<Longrightarrow> new_node d x \<Longrightarrow> get_leaves (edges d @ es) x = get_leaves es x"
  by (cases x) (auto simp: new_node_def downstream_append downstream_old intro!: filter_cong)

lemma get_roots_ext:
  "wf_dag d \<Longrightarrow> new_node d x \<Longrightarrow> get_roots (edges d @ es) x = get_roots es x"
  by (cases x) (auto simp: new_node_def upstream_append upstream_old intro!: filter_cong)

lemma rshift_ext:
  assumes wf: "wf_dag d" and a: "list_all (new_node d) a" and b: "list_all (new_node d) b"
  shows "rshift a b (ext d ts es c) =
     ext d ts (es @ concat (map (\<lambda>u. map (\<lambda>v. (u, v)) (concat (map (get_roots es) b)))
                                (concat (map (get_leaves es) a)))) c"
proof -
  have r: "map (get_roots (edges d @ es)) b = map (get_roots es) b"
    using b by (intro map_cong refl) (simp add: list_all_iff get_roots_ext[OF wf])
  have l: "map (get_leaves (edges d @ es)) a = map (get_leaves es) a"
    using a by (intro map_cong refl) (simp add: list_all_iff get_leaves_ext[OF wf])
  show ?thesis
    unfolding rshift_def ext_def by (simp only: dag.simps r l append_assoc)
qed

lemma xcom_refs_opt_obj: "xcom_refs (opt_obj a x) = []"
  by (cases x) (simp_all add: opt_obj_def)

lemma xcom_refs_opt_str: "xcom_refs (opt_str x) = []"
  by (cases x) (simp_all add: opt_str_def)

lemma opt_xcom_Some: "opt_xcom (Some n) = VXCom n"
  by (simp add: opt_xcom_def)

lemma if_True_or: "(if c then True else b) = (c \<or> b)"
  by simp

lemmas ext_simps = operator_call_ext TaskGroup_enter_ext TaskGroup_exit_ext rshift_ext
  TaskGroupContext_push_ext TaskGroupContext_pop_ext
  new_node_def downstream_Cons upstream_Cons downstream_Nil upstream_Nil butlast_append
  xcom_refs_opt_obj xcom_refs_opt_str opt_xcom_Some if_True_or Let_def

section \<open>Reachability\<close>

lemma descendants_sound:
  "v \<in> set (descendants es k xs) \<Longrightarrow> \<exists>x \<in> set xs. (x, v) \<in> (set es)\<^sup>+"
proof (induction k arbitrary: xs v)
  case 0
  then show ?case by simp
next
  case (Suc k)
  let ?ys = "concat (map (downstream_task_ids es) xs)"
  have step: "\<And>y. y \<in> set ?ys \<Longrightarrow> \<exists>x \<in> set xs. (x, y) \<in> set es"
    by (auto simp: downstream_task_ids_def)
  from Suc.prems have "v \<in> set ?ys \<or> v \<in> set (descendants es k ?ys)"
    by (simp add: Let_def)
  then show ?case
  proof
    assume "v \<in> set ?ys"
    with step show ?thesis by blast
  next
    assume "v \<in> set (descendants es k ?ys)"
    with Suc.IH obtain y where y: "y \<in> set ?ys" "(y, v) \<in> (set es)\<^sup>+" by blast
    with step obtain x where "x \<in> set xs" "(x, y) \<in> set es" by blast
    with y show ?thesis by (meson trancl_into_trancl2)
  qed
qed

lemma reach_all_sound:
  "reach_all es k us vs \<Longrightarrow> u \<in> set us \<Longrightarrow> v \<in> set vs \<Longrightarrow> (u, v) \<in> (set es)\<^sup>+"
proof (induction us)
  case Nil
  then show ?case by simp
next
  case (Cons a us)
  show ?case
  proof (cases "u = a")
    case True
    with Cons.prems have "v \<in> set (descendants es k [u])" by auto
    then show ?thesis using descendants_sound by fastforce
  next
    case False
    with Cons show ?thesis by simp
  qed
qed

lemma before_ext:
  assumes "reach_all es k (members a) (members b)"
  shows "before (ext d ts es c) a b"
  unfolding before_def
proof (intro ballI)
  fix u v
  assume "u \<in> set (members a)" "v \<in> set (members b)"
  with assms have "(u, v) \<in> (set es)\<^sup>+"
    by (rule reach_all_sound)
  moreover have "set es \<subseteq> set (edges (ext d ts es c))"
    by simp
  ultimately show "(u, v) \<in> (set (edges (ext d ts es c)))\<^sup>+"
    by (meson trancl_mono)
qed

lemma stage_rank_zero:
  "\<forall>s \<in> set stages. t \<notin> set (members s) \<Longrightarrow> stage_rank stages t = 0"
  by (induction stages) auto

lemma monotone_edges_iff:
  "monotone_edges stages es =
     (\<forall>e \<in> set es. stage_rank stages (fst e) \<le> stage_rank stages (snd e))"
  by (induction es) auto

lemma monotone_edges_append:
  "monotone_edges stages (es @ es') = (monotone_edges stages es \<and> monotone_edges stages es')"
  by (auto simp: monotone_edges_iff)

lemma monotone_edges_old:
  assumes "wf_dag d" "list_all (new_node d) stages"
  shows "monotone_edges stages (edges d)"
proof -
  have "stage_rank stages (fst e) = 0" if "e \<in> set (edges d)" for e
  proof (rule stage_rank_zero, intro ballI notI)
    fix s assume "s \<in> set stages" "fst e \<in> set (members s)"
    with assms(2) have "length (tasks d) \<le> fst e"
      by (auto simp: list_all_iff new_node_def)
    moreover from that assms(1) have "fst e < length (tasks d)"
      by (auto simp: wf_dag_def)
    ultimately show False by simp
  qed
  then show ?thesis by (simp add: monotone_edges_iff)
qed

lemma monotone_edges_ext:
  assumes "wf_dag d" "list_all (new_node d) stages" "monotone_edges stages es"
  shows "monotone_edges stages (edges (ext d ts es c))"
  using assms by (simp add: monotone_edges_append monotone_edges_old)

lemma rank_path:
  assumes "monotone_edges stages es" "(u, v) \<in> (set es)\<^sup>+"
  shows "stage_rank stages u \<le> stage_rank stages v"
  using assms(2)
proof (induction rule: trancl.induct)
  case (r_into_trancl a b)
  with assms(1) show ?case by (force simp: monotone_edges_iff)
next
  case (trancl_into_trancl a b c)
  with assms(1) have "stage_rank stages b \<le> stage_rank stages c"
    by (force simp: monotone_edges_iff)
  with trancl_into_trancl show ?case by simp
qed

section \<open>The graphs the composing functions build\<close>

lemmas reach_simps = before_ext[where k = "Suc (Suc (Suc (Suc 0)))"]
  downstream_Cons downstream_Nil Let_def

lemma run_queued_resource_test_body_ext:
  assumes "wf_dag d" "length (tasks d) = n"
  shows "run_queued_resource_test_body tc gc mc tmo ev aw (ext d [] [] c) =
     ((Group [n, n + 1, n + 2, n + 3, n + 4], Task (n + 5), Group [n + 6, n + 7], Task (n + 8)),
      ext d (queued_resource_tasks tc mc tmo ev aw c n) (queued_resource_edges n) c)"
  using assms
  by (simp add: run_queued_resource_test_body_def ext_simps queued_resource_tasks_def
        queued_resource_edges_def cong: let_weak_cong prod.case_cong_weak)

lemma run_queued_resource_test_ext:
  assumes "wf_dag d" "length (tasks d) = n"
  shows "run_queued_resource_test tc gc mc tmo ev aw d =
     (Group [n, n + 1, n + 2, n + 3, n + 4, n + 5, n + 6, n + 7, n + 8],
      ext d (queued_resource_tasks tc mc tmo ev aw (ctx d @ [benchmark_id tc]) n)
            (queued_resource_edges n) (ctx d))"
proof -
  have "run_queued_resource_test tc gc mc tmo ev aw d =
        run_queued_resource_test tc gc mc tmo ev aw (ext d [] [] (ctx d))"
    by (simp add: ext_start)
  also have "\<dots> = (Group [n, n + 1, n + 2, n + 3, n + 4, n + 5, n + 6, n + 7, n + 8],
      ext d (queued_resource_tasks tc mc tmo ev aw (ctx d @ [benchmark_id tc]) n)
            (queued_resource_edges n) (ctx d))"
    using assms
    by (simp add: run_queued_resource_test_def TaskGroup_enter_ext TaskGroup_exit_ext
          run_queued_resource_test_body_ext queued_resource_tasks_def)
  finally show ?thesis .
qed

lemma queued_resource_stage_order:
  assumes "wf_dag d" "length (tasks d) = n"
  shows "stage_order (ext d ts (queued_resource_edges n) c)
           [Group [n, n + 1, n + 2, n + 3, n + 4], Task (n + 5), Group [n + 6, n + 7],
            Task (n + 8)]"
  unfolding stage_order_def
proof (intro conjI)
  show "successively (before (ext d ts (queued_resource_edges n) c))
     [Group [n, n + 1, n + 2, n + 3, n + 4], Task (n + 5), Group [n + 6, n + 7], Task (n + 8)]"
    by (simp add: reach_simps queued_resource_edges_def)
  show "monotone_edges [Group [n, n + 1, n + 2, n + 3, n + 4], Task (n + 5),
                        Group [n + 6, n + 7], Task (n + 8)]
          (edges (ext d ts (queued_resource_edges n) c))"
    using assms 
    by (intro monotone_edges_ext) (simp_all add: new_node_def queued_resource_edges_def)
qed simp_all

lemma GpuCreateResourceTask_run_body_ext:
  assumes "wf_dag d" "length (tasks d) = n"
  shows "GpuCreateResourceTask_run_body self (ext d [] [] c) =
     ((Group [n, n + 1, n + 2, n + 3, n + 4], Task (n + 5), Group [n + 6, n + 7], Task (n + 8)),
      ext d (gpu_run_tasks self c n) (gpu_run_edges self n) c)"
  using assms
  by (cases "use_gcs_env (task_metric_config self)")
     (simp_all add: GpuCreateResourceTask_run_body_def GpuCreateResourceTask_provision_def
        GpuCreateResourceTask_run_model_def GpuCreateResourceTask_post_process_def
        GpuCreateResourceTask_clean_up_def ext_simps gpu_run_tasks_def gpu_run_edges_def
        gpu_env_def cong: let_weak_cong prod.case_cong_weak)

lemma GpuCreateResourceTask_run_with_existing_instance_body_ext:
  assumes "wf_dag d" "length (tasks d) = n"
  shows "GpuCreateResourceTask_run_with_existing_instance_body self (ext d [] [] c) =
     ((Group [n, n + 1, n + 2], Task (n + 5), Group [n + 3, n + 4], Task (n + 6)),
      ext d (gpu_existing_tasks self c n) (gpu_existing_edges self n) c)"
  using assms
  by (cases "use_gcs_env (task_metric_config self)")
     (simp_all add: GpuCreateResourceTask_run_with_existing_instance_body_def
        GpuCreateResourceTask_provision_via_existing_instance_def
        GpuCreateResourceTask_run_model_def GpuCreateResourceTask_post_process_def
        GpuCreateResourceTask_clean_up_existing_instance_def ext_simps gpu_existing_tasks_def
        gpu_existing_edges_def gpu_env_def
        cong: let_weak_cong prod.case_cong_weak)

lemma GpuGkeTask_run_body_ext:
  assumes "wf_dag d" "length (tasks d) = n"
    and "GpuGkeTask_get_job_manifest shlex_split self = Inr job_body"
  shows "GpuGkeTask_run_body shlex_split self (ext d [] [] c) =
     (Inr (Task n, Task (n + 1), Group [n + 2, n + 3]),
      ext d (gke_tasks self job_body c n) (gke_edges n) c)"
  using assms
  by (simp add: GpuGkeTask_run_body_def GpuGkeTask_post_process_def ext_simps gke_tasks_def
        gke_edges_def cong: let_weak_cong prod.case_cong_weak)

lemma GpuGkeTask_run_body_error:
  assumes "GpuGkeTask_get_job_manifest shlex_split self = Inl e"
  shows "fst (GpuGkeTask_run_body shlex_split self d) = Inl e"
  using assms
  by (simp add: GpuGkeTask_run_body_def operator_call_def Let_def split_def)

lemma gpu_run_stage_order:
  assumes "wf_dag d" "length (tasks d) = n"
  shows "stage_order (ext d ts (gpu_run_edges self n) c)
           [Group [n, n + 1, n + 2, n + 3, n + 4], Task (n + 5), Group [n + 6, n + 7],
            Task (n + 8)]"
  unfolding stage_order_def
proof (intro conjI)
  show "successively (before (ext d ts (gpu_run_edges self n) c))
     [Group [n, n + 1, n + 2, n + 3, n + 4], Task (n + 5), Group [n + 6, n + 7], Task (n + 8)]"
    by (cases "use_gcs_env (task_metric_config self)")
       (simp_all add: reach_simps gpu_run_edges_def)
  show "monotone_edges [Group [n, n + 1, n + 2, n + 3, n + 4], Task (n + 5),
                        Group [n + 6, n + 7], Task (n + 8)]
          (edges (ext d ts (gpu_run_edges self n) c))"
    using assms
    by (intro monotone_edges_ext) (simp_all add: new_node_def gpu_run_edges_def)
qed simp_all

lemma gpu_existing_stage_order:
  assumes "wf_dag d" "length (tasks d) = n"
  shows "stage_order (ext d ts (gpu_existing_edges self n) c)
           [Group [n, n + 1, n + 2], Task (n + 5), Group [n + 3, n + 4], Task (n + 6)]"
  unfolding stage_order_def
proof (intro conjI)
  show "successively (before (ext d ts (gpu_existing_edges self n) c))
     [Group [n, n + 1, n + 2], Task (n + 5), Group [n + 3, n + 4], Task (n + 6)]"
    by (cases "use_gcs_env (task_metric_config self)")
       (simp_all add: reach_simps gpu_existing_edges_def)
  show "monotone_edges [Group [n, n + 1, n + 2], Task (n + 5), Group [n + 3, n + 4],
                        Task (n + 6)]
          (edges (ext d ts (gpu_existing_edges self n) c))"
    using assms
    by (intro monotone_edges_ext) (simp_all add: new_node_def gpu_existing_edges_def)
qed simp_all

lemma gke_stage_order:
  assumes "wf_dag d" "length (tasks d) = n"
  shows "stage_order (ext d ts (gke_edges n) c) [Task n, Task (n + 1), Group [n + 2, n + 3]]"
  unfolding stage_order_def
proof (intro conjI)
  show "successively (before (ext d ts (gke_edges n) c))
     [Task n, Task (n + 1), Group [n + 2, n + 3]]"
    by (simp add: reach_simps gke_edges_def)
  show "monotone_edges [Task n, Task (n + 1), Group [n + 2, n + 3]]
          (edges (ext d ts (gke_edges n) c))"
    using assms
    by (intro monotone_edges_ext) (simp_all add: new_node_def gke_edges_def)
qed simp_all

subsection \<open>What a stage order implies\<close>

lemma before_trans:
  assumes "before d a b" "before d b c" "members b \<noteq> []"
  shows "before d a c"
  unfolding before_def
proof (intro ballI)
  fix u v assume u: "u \<in> set (members a)" and v: "v \<in> set (members c)"
  from assms(3) obtain w where w: "w \<in> set (members b)"
    by (cases "members b") auto
  from assms(1) u w have "(u, w) \<in> (set (edges d))\<^sup>+" by (simp add: before_def)
  moreover from assms(2) w v have "(w, v) \<in> (set (edges d))\<^sup>+" by (simp add: before_def)
  ultimately show "(u, v) \<in> (set (edges d))\<^sup>+" by simp
qed

lemma stage_order_before:
  assumes "stage_order d stages" "i < j" "j < length stages"
  shows "before d (stages ! i) (stages ! j)"
proof -
  from assms(1) have ne: "\<forall>s \<in> set stages. members s \<noteq> []"
    and suc: "successively (before d) stages"
    by (simp_all add: stage_order_def list_all_iff)
  have "sorted_wrt (before d) stages"
    using suc ne by (subst successively_iff_sorted_wrt_strong[symmetric]) (auto intro: before_trans)
  with assms(2,3) show ?thesis
    by (simp add: sorted_wrt_iff_nth_less)
qed

lemma stage_rank_nth:
  "distinct (concat (map members stages)) \<Longrightarrow> i < length stages \<Longrightarrow>
   t \<in> set (members (stages ! i)) \<Longrightarrow> stage_rank stages t = Suc i"
proof (induction stages arbitrary: i)
  case Nil
  then show ?case by simp
next
  case (Cons s ss)
  show ?case
  proof (cases i)
    case 0
    with Cons.prems show ?thesis by simp
  next
    case (Suc k)
    with Cons.prems have k: "k < length ss" "t \<in> set (members (ss ! k))" by simp_all
    then have "t \<in> set (concat (map members ss))" by auto
    with Cons.prems(1) have "t \<notin> set (members s)" by auto
    moreover from Cons.IH[OF _ k] Cons.prems(1) have "stage_rank ss t = Suc k" by simp
    ultimately show ?thesis using Suc by simp
  qed
qed

lemma stage_order_never_before:
  assumes "stage_order d stages" "i < j" "j < length stages"
  shows "never_before d (stages ! j) (stages ! i)"
  unfolding never_before_def
proof (intro ballI notI)
  fix u v
  assume u: "u \<in> set (members (stages ! j))" and v: "v \<in> set (members (stages ! i))"
    and p: "(u, v) \<in> (set (edges d))\<^sup>+"
  from assms(1) have dist: "distinct (concat (map members stages))"
    and mono: "monotone_edges stages (edges d)"
    by (simp_all add: stage_order_def)
  from rank_path[OF mono p] have "stage_rank stages u \<le> stage_rank stages v" .
  moreover from stage_rank_nth[OF dist assms(3) u] have "stage_rank stages u = Suc j" .
  moreover from assms(2,3) stage_rank_nth[OF dist _ v] have "stage_rank stages v = Suc i" by simp
  ultimately show False using assms(2) by simp
qed

section \<open>Stage order of the composed pipelines\<close>

lemma TaskGroup_enter_start:
  "TaskGroup_enter g d = (length (tasks d), ext d [] [] (ctx d @ [g]))"
  by (simp add: TaskGroup_enter_def TaskGroupContext_push_def ext_def)

lemma nth_ext:
  "length xs = n \<Longrightarrow> (xs @ ys) ! (n + k) = ys ! k"
  "length xs = n \<Longrightarrow> (xs @ ys) ! n = ys ! 0"
  "length xs = n \<Longrightarrow> (xs @ ys) ! Suc n = ys ! 1"
  "length xs = n \<Longrightarrow> (xs @ ys) ! Suc (Suc n) = ys ! 2"
  by (auto simp: nth_append)

lemma GpuCreateResourceTask_run_new:
  assumes "wf_dag d" "length (tasks d) = n" "existing_instance_name self = None"
  shows "GpuCreateResourceTask_run self d =
     (Group [n, n + 1, n + 2, n + 3, n + 4, n + 5, n + 6, n + 7, n + 8],
      ext d (gpu_run_tasks self (ctx d @ [benchmark_id (task_test_config self)]) n)
            (gpu_run_edges self n) (ctx d))"
  using assms
  by (simp add: GpuCreateResourceTask_run_def TaskGroup_enter_start TaskGroup_exit_ext
        GpuCreateResourceTask_run_body_ext gpu_run_tasks_def)

lemma GpuCreateResourceTask_run_existing:
  assumes "wf_dag d" "length (tasks d) = n" "existing_instance_name self \<noteq> None"
  shows "GpuCreateResourceTask_run self d =
     (Group [n, n + 1, n + 2, n + 3, n + 4, n + 5, n + 6],
      ext d (gpu_existing_tasks self (ctx d @ [benchmark_id (task_test_config self)]) n)
            (gpu_existing_edges self n) (ctx d))"
  using assms
  by (simp add: GpuCreateResourceTask_run_def GpuCreateResourceTask_run_with_existing_instance_def
        TaskGroup_enter_start TaskGroup_exit_ext
        GpuCreateResourceTask_run_with_existing_instance_body_ext gpu_existing_tasks_def)

lemma GpuGkeTask_run_ok:
  assumes "wf_dag d" "length (tasks d) = n"
    and "GpuGkeTask_get_job_manifest shlex_split self = Inr job_body"
  shows "GpuGkeTask_run shlex_split self d =
     (Inr (Group [n, n + 1, n + 2, n + 3]),
      ext d (gke_tasks self job_body (ctx d @ [benchmark_id (task_test_config self)]) n)
            (gke_edges n) (ctx d))"
  using assms
  by (simp add: GpuGkeTask_run_def TaskGroup_enter_start TaskGroup_exit_ext
        GpuGkeTask_run_body_ext gke_tasks_def)

lemma queued_resource_claim:
  assumes "wf_dag d"
  shows "case run_queued_resource_test_body tc gc mc tmo ev aw
                (snd (TaskGroup_enter (benchmark_id tc) d)) of
           ((provision, run_model, post_process, clean_up), d1) \<Rightarrow>
          (case run_queued_resource_test tc gc mc tmo ev aw d of
             (test, d') \<Rightarrow>
               stage_order d' [provision, run_model, post_process, clean_up] \<and>
               set (members test) =
                 set (concat (map members [provision, run_model, post_process, clean_up])) \<and>
               stage_operators d' run_model = [''tpu.ssh_tpu''] \<and>
               stage_operators d' post_process =
                 [''metric.generate_process_id'', ''metric.process_metrics''] \<and>
               stage_operators d' clean_up = [''tpu.delete_queued_resource''])"
proof -
  define n where "n = length (tasks d)"
  then have n: "length (tasks d) = n" by simp
  show ?thesis
    using queued_resource_stage_order[OF assms n]
    by (simp add: TaskGroup_enter_start run_queued_resource_test_body_ext[OF assms n]
          run_queued_resource_test_ext[OF assms n] n stage_operators_def nth_ext[OF n]
          queued_resource_tasks_def)
qed


lemma gpu_claim:
  assumes "wf_dag d"
  shows "case (if existing_instance_name self \<noteq> None
               then GpuCreateResourceTask_run_with_existing_instance_body self
               else GpuCreateResourceTask_run_body self)
                (snd (TaskGroup_enter (benchmark_id (task_test_config self)) d)) of
           ((provision, run_model, post_process, clean_up), d1) \<Rightarrow>
          (case GpuCreateResourceTask_run self d of
             (grp, d') \<Rightarrow>
               stage_order d' [provision, run_model, post_process, clean_up] \<and>
               set (members grp) =
                 set (concat (map members [provision, run_model, post_process, clean_up])) \<and>
               stage_operators d' run_model = [''gpu.ssh_host''] \<and>
               stage_operators d' post_process =
                 [''metric.generate_process_id'', ''metric.process_metrics''] \<and>
               stage_operators d' clean_up =
                 [if existing_instance_name self \<noteq> None then ''gpu.clean_up_ssh_keys''
                  else ''gpu.delete_resource''])"
proof -
  define n where "n = length (tasks d)"
  then have n: "length (tasks d) = n" by simp
  show ?thesis
  proof (cases "existing_instance_name self = None")
    case True
    then show ?thesis
      using gpu_run_stage_order[OF assms n]
      by (simp add: TaskGroup_enter_start GpuCreateResourceTask_run_body_ext[OF assms n]
            GpuCreateResourceTask_run_new[OF assms n] stage_operators_def nth_ext[OF n]
            gpu_run_tasks_def)
  next
    case False
    then show ?thesis
      using gpu_existing_stage_order[OF assms n]
      by (auto simp add: TaskGroup_enter_start
            GpuCreateResourceTask_run_with_existing_instance_body_ext[OF assms n]
            GpuCreateResourceTask_run_existing[OF assms n] stage_operators_def nth_ext[OF n]
            gpu_existing_tasks_def)
  qed
qed

lemma gke_claim:
  assumes "wf_dag d" "GpuGkeTask_get_job_manifest shlex_split gke = Inr job_body"
  shows "case GpuGkeTask_run_body shlex_split gke
                (snd (TaskGroup_enter (benchmark_id (task_test_config gke)) d)) of
           (r, d1) \<Rightarrow>
          (case GpuGkeTask_run shlex_split gke d of
             (g, d') \<Rightarrow>
               (\<exists>gcs_location gke_run post_process grp.
                  r = Inr (gcs_location, gke_run, post_process) \<and> g = Inr grp \<and>
                  stage_order d' [gcs_location, gke_run, post_process] \<and>
                  set (members grp) =
                    set (concat (map members [gcs_location, gke_run, post_process])) \<and>
                  stage_operators d' gcs_location =
                    [''name_format.generate_gcs_folder_location''] \<and>
                  stage_operators d' gke_run = [''gke.run_job''] \<and>
                  stage_operators d' post_process =
                    [''metric.generate_process_id'', ''metric.process_metrics'']))"
proof -
  define n where "n = length (tasks d)"
  then have n: "length (tasks d) = n" by simp
  show ?thesis
    using gke_stage_order[OF assms(1) n]
    by (auto simp add: TaskGroup_enter_start GpuGkeTask_run_body_ext[OF assms(1) n assms(2)]
          GpuGkeTask_run_ok[OF assms(1) n assms(2)] stage_operators_def nth_ext[OF n]
          gke_tasks_def)
qed


lemma wf_dag0: "wf_dag dag0"
  by (simp add: wf_dag_def dag0_def)

lemma length_dag0: "length (tasks dag0) = 0"
  by (simp add: dag0_def)

lemma ctx_dag0: "ctx dag0 = []"
  by (simp add: dag0_def)

text \<open>
  Claim C1. For every backend variant the composed pipeline chains its stages in the order
  provision, run, post-process, clean-up (for the batch job: artifact location, the job
  that provisions and runs, post-process, and no clean-up stage): the stages are what the
  composing function binds to its local variables, they make up the returned group, each
  is wholly upstream of the next, and no edge leads back from a stage to an earlier one.
\<close>

theorem pipeline_stage_order:
  assumes "wf_dag d"
  shows
   "(case run_queued_resource_test_body tc gc mc tmo ev aw
            (snd (TaskGroup_enter (benchmark_id tc) d)) of
       ((provision, run_model, post_process, clean_up), d1) \<Rightarrow>
      (case run_queued_resource_test tc gc mc tmo ev aw d of
         (test, d') \<Rightarrow>
           stage_order d' [provision, run_model, post_process, clean_up] \<and>
           set (members test) =
             set (concat (map members [provision, run_model, post_process, clean_up])) \<and>
           stage_operators d' run_model = [''tpu.ssh_tpu''] \<and>
           stage_operators d' post_process =
             [''metric.generate_process_id'', ''metric.process_metrics''] \<and>
           stage_operators d' clean_up = [''tpu.delete_queued_resource''])) \<and>
    (case (if existing_instance_name self \<noteq> None
           then GpuCreateResourceTask_run_with_existing_instance_body self
           else GpuCreateResourceTask_run_body self)
            (snd (TaskGroup_enter (benchmark_id (task_test_config self)) d)) of
       ((provision, run_model, post_process, clean_up), d1) \<Rightarrow>
      (case GpuCreateResourceTask_run self d of
         (grp, d') \<Rightarrow>
           stage_order d' [provision, run_model, post_process, clean_up] \<and>
           set (members grp) =
             set (concat (map members [provision, run_model, post_process, clean_up])) \<and>
           stage_operators d' run_model = [''gpu.ssh_host''] \<and>
           stage_operators d' post_process =
             [''metric.generate_process_id'', ''metric.process_metrics''] \<and>
           stage_operators d' clean_up =
             [if existing_instance_name self \<noteq> None then ''gpu.clean_up_ssh_keys''
              else ''gpu.delete_resource''])) \<and>
    (\<forall>job_body. GpuGkeTask_get_job_manifest shlex_split gke = Inr job_body \<longrightarrow>
      (case GpuGkeTask_run_body shlex_split gke
              (snd (TaskGroup_enter (benchmark_id (task_test_config gke)) d)) of
         (r, d1) \<Rightarrow>
        (case GpuGkeTask_run shlex_split gke d of
           (g, d') \<Rightarrow>
             (\<exists>gcs_location gke_run post_process grp.
                r = Inr (gcs_location, gke_run, post_process) \<and> g = Inr grp \<and>
                stage_order d' [gcs_location, gke_run, post_process] \<and>
                set (members grp) =
                  set (concat (map members [gcs_location, gke_run, post_process])) \<and>
                stage_operators d' gcs_location =
                  [''name_format.generate_gcs_folder_location''] \<and>
                stage_operators d' gke_run = [''gke.run_job''] \<and>
                stage_operators d' post_process =
                  [''metric.generate_process_id'', ''metric.process_metrics'']))))"
  using queued_resource_claim[OF assms] gpu_claim[OF assms] gke_claim[OF assms]
  by (intro conjI allI impI)

theorem pipeline_stage_order_witness:
  "wf_dag dag0 \<and>
   (\<exists>job_body. GpuGkeTask_get_job_manifest words1 example_gke_task = Inr job_body) \<and>
   stage_order (snd (run_queued_resource_test tf_test_config example_gcp_config None
                       (minutes 60) False False dag0))
     [Group [0, 1, 2, 3, 4], Task 5, Group [6, 7], Task 8] \<and>
   stage_order (snd (GpuCreateResourceTask_run example_gpu_task dag0))
     [Group [0, 1, 2, 3, 4], Task 5, Group [6, 7], Task 8] \<and>
   stage_order (snd (GpuGkeTask_run words1 example_gke_task dag0)) [Task 0, Task 1, Group [2, 3]]"
proof -
  obtain job_body where m: "GpuGkeTask_get_job_manifest words1 example_gke_task = Inr job_body"
    by (simp add: GpuGkeTask_get_job_manifest_def words1_def Let_def)
  have e: "existing_instance_name example_gpu_task = None"
    by (simp add: example_gpu_task_def)
  from pipeline_stage_order[OF wf_dag0, where tc = tf_test_config and gc = example_gcp_config
      and mc = None and tmo = "minutes 60" and ev = False and aw = False
      and self = example_gpu_task and shlex_split = words1 and gke = example_gke_task] m e
  show ?thesis
    by (simp add: wf_dag0 TaskGroup_enter_start
          run_queued_resource_test_body_ext[OF wf_dag0 length_dag0]
          run_queued_resource_test_ext[OF wf_dag0 length_dag0]
          GpuCreateResourceTask_run_body_ext[OF wf_dag0 length_dag0]
          GpuCreateResourceTask_run_new[OF wf_dag0 length_dag0]
          GpuGkeTask_run_body_ext[OF wf_dag0 length_dag0]
          GpuGkeTask_run_ok[OF wf_dag0 length_dag0] numeral_2_eq_2)
qed

section \<open>Arguments handed to the stages\<close>

lemma startswith_tf: "startswith (test_name tf_test_config) ''tf_''"
  by (simp add: tf_test_config_def startswith_def)

text \<open>
  Claim C8, as the code has it. In the queued-resource pipeline the set-up script runs on
  all workers whenever the test name begins with tf_, whatever flag the caller gave; the
  run_model script is handed the caller's all_workers flag unchanged, also for a tf_ test.
\<close>

theorem all_workers_arguments:
  assumes "wf_dag d"
  shows "case run_queued_resource_test tc gc mc tmo ev aw d of
           (test, d') \<Rightarrow>
             (let n = length (tasks d);
                  setup = tasks d' ! (n + 4);
                  run_model = tasks d' ! (n + 5)
              in operator setup = ''tpu.ssh_tpu'' \<and>
                 override setup = [(''task_id'', VStr ''setup'')] \<and>
                 args setup ! 1 = VStr (setup_script tc) \<and>
                 args setup ! 3 = VBool (startswith (test_name tc) ''tf_'' \<or> aw) \<and>
                 operator run_model = ''tpu.ssh_tpu'' \<and>
                 hd (override run_model) = (''task_id'', VStr ''run_model'') \<and>
                 args run_model ! 1 = VStr (test_script tc) \<and>
                 args run_model ! 3 = VBool aw)"
proof -
  define n where "n = length (tasks d)"
  then have n: "length (tasks d) = n" by simp
  show ?thesis
    by (simp add: run_queued_resource_test_ext[OF assms n] n nth_ext[OF n]
          queued_resource_tasks_def)
qed

theorem all_workers_arguments_witness:
  "wf_dag dag0 \<and>
   args (tasks (snd (run_queued_resource_test tf_test_config example_gcp_config None
                       (minutes 60) False False dag0)) ! 4) ! 3 = VBool True \<and>
   args (tasks (snd (run_queued_resource_test tf_test_config example_gcp_config None
                       (minutes 60) False True dag0)) ! 5) ! 3 = VBool True"
  using all_workers_arguments[OF wf_dag0, where tc = tf_test_config and gc = example_gcp_config
          and mc = None and tmo = "minutes 60" and ev = False and aw = False]
        all_workers_arguments[OF wf_dag0, where tc = tf_test_config and gc = example_gcp_config
          and mc = None and tmo = "minutes 60" and ev = False and aw = True]
  by (simp add: wf_dag0 length_dag0 startswith_tf split_beta Let_def)

theorem tf_run_model_not_on_all_workers:
  "startswith (test_name tf_test_config) ''tf_'' \<and>
   (let d' = snd (run_queued_resource_test tf_test_config example_gcp_config None
                    (minutes 60) False False dag0)
    in operator (tasks d' ! 5) = ''tpu.ssh_tpu'' \<and>
       override (tasks d' ! 5) =
         [(''task_id'', VStr ''run_model''), (''execution_timeout'', VTimedelta (minutes 60)),
          (''owner'', VStr ''owner'')] \<and>
       args (tasks d' ! 5) = [VXCom 3, VStr ''python3 run.py'', VXCom 1, VBool False])"
  by (simp add: startswith_tf run_queued_resource_test_ext[OF wf_dag0 length_dag0],
      simp add: queued_resource_tasks_def tf_test_config_def dag0_def)

text \<open>
  Claim C7, as the code has it. The queued-resource pipeline always hands the runner the
  location generated once in the initialize sub-phase, as the single entry GCS_OUTPUT of its
  environment, and post-processing receives the same value as folder_location. The pipeline
  of GpuCreateResourceTask gives post-processing that generated location too, but hands it
  to the runner only when a metric configuration is present and asks for the
  runtime-generated folder; otherwise the runner's environment is None.
\<close>

theorem artifact_location_passing:
  assumes "wf_dag d"
  shows
   "(case run_queued_resource_test tc gc mc tmo ev aw d of
       (test, d') \<Rightarrow>
         (let n = length (tasks d)
          in operator (tasks d' ! (n + 2)) = ''name_format.generate_gcs_folder_location'' \<and>
             task_group (tasks d' ! (n + 2)) =
               ctx d @ [benchmark_id tc, ''provision'', ''initialize''] \<and>
             operator (tasks d' ! (n + 5)) = ''tpu.ssh_tpu'' \<and>
             kwargs (tasks d' ! (n + 5)) = [(''env'', VDict [(GCS_OUTPUT, VXCom (n + 2))])] \<and>
             operator (tasks d' ! (n + 7)) = ''metric.process_metrics'' \<and>
             kwargs (tasks d' ! (n + 7)) = [(''folder_location'', VXCom (n + 2))])) \<and>
    (case GpuCreateResourceTask_run self d of
       (grp, d') \<Rightarrow>
         (let n = length (tasks d);
              process_metrics = (if existing_instance_name self \<noteq> None then n + 4 else n + 7)
          in operator (tasks d' ! (n + 2)) = ''name_format.generate_gcs_folder_location'' \<and>
             operator (tasks d' ! (n + 5)) = ''gpu.ssh_host'' \<and>
             hd (override (tasks d' ! (n + 5))) = (''task_id'', VStr ''run_model'') \<and>
             args (tasks d' ! (n + 5)) ! 3 =
               (if use_gcs_env (task_metric_config self)
                then VDict [(GCS_OUTPUT, VXCom (n + 2))] else VNone) \<and>
             operator (tasks d' ! process_metrics) = ''metric.process_metrics'' \<and>
             kwargs (tasks d' ! process_metrics) = [(''folder_location'', VXCom (n + 2))]))"
proof -
  define n where "n = length (tasks d)"
  then have n: "length (tasks d) = n" by simp
  have qr: "case run_queued_resource_test tc gc mc tmo ev aw d of
       (test, d') \<Rightarrow>
         (let n = length (tasks d)
          in operator (tasks d' ! (n + 2)) = ''name_format.generate_gcs_folder_location'' \<and>
             task_group (tasks d' ! (n + 2)) =
               ctx d @ [benchmark_id tc, ''provision'', ''initialize''] \<and>
             operator (tasks d' ! (n + 5)) = ''tpu.ssh_tpu'' \<and>
             kwargs (tasks d' ! (n + 5)) = [(''env'', VDict [(GCS_OUTPUT, VXCom (n + 2))])] \<and>
             operator (tasks d' ! (n + 7)) = ''metric.process_metrics'' \<and>
             kwargs (tasks d' ! (n + 7)) = [(''folder_location'', VXCom (n + 2))])"
    by (simp add: run_queued_resource_test_ext[OF assms n] n nth_ext[OF n]
          queued_resource_tasks_def)
  have gpu: "case GpuCreateResourceTask_run self d of
       (grp, d') \<Rightarrow>
         (let n = length (tasks d);
              process_metrics = (if existing_instance_name self \<noteq> None then n + 4 else n + 7)
          in operator (tasks d' ! (n + 2)) = ''name_format.generate_gcs_folder_location'' \<and>
             operator (tasks d' ! (n + 5)) = ''gpu.ssh_host'' \<and>
             hd (override (tasks d' ! (n + 5))) = (''task_id'', VStr ''run_model'') \<and>
             args (tasks d' ! (n + 5)) ! 3 =
               (if use_gcs_env (task_metric_config self)
                then VDict [(GCS_OUTPUT, VXCom (n + 2))] else VNone) \<and>
             operator (tasks d' ! process_metrics) = ''metric.process_metrics'' \<and>
             kwargs (tasks d' ! process_metrics) = [(''folder_location'', VXCom (n + 2))])"
  proof (cases "existing_instance_name self = None")
    case True
    then show ?thesis
      by (simp add: GpuCreateResourceTask_run_new[OF assms n] n nth_ext[OF n]
            gpu_run_tasks_def gpu_env_def)
  next
    case False
    then show ?thesis
      by (simp add: GpuCreateResourceTask_run_existing[OF assms n] n nth_ext[OF n]
            gpu_existing_tasks_def gpu_env_def)
  qed
  from qr gpu show ?thesis by (rule conjI)
qed

theorem artifact_location_passing_witness:
  "wf_dag dag0 \<and>
   kwargs (tasks (snd (run_queued_resource_test tf_test_config example_gcp_config None
                         (minutes 60) False False dag0)) ! 5) =
     [(''env'', VDict [(''GCS_OUTPUT'', VXCom 2)])] \<and>
   kwargs (tasks (snd (run_queued_resource_test tf_test_config example_gcp_config None
                         (minutes 60) False False dag0)) ! 7) =
     [(''folder_location'', VXCom 2)] \<and>
   kwargs (tasks (snd (GpuCreateResourceTask_run example_gpu_task dag0)) ! 7) =
     [(''folder_location'', VXCom 2)]"
  using artifact_location_passing[OF wf_dag0, where tc = tf_test_config
          and gc = example_gcp_config and mc = None and tmo = "minutes 60" and ev = False
          and aw = False and self = example_gpu_task]
  by (simp add: wf_dag0 length_dag0 GCS_OUTPUT_def example_gpu_task_def split_beta Let_def)

theorem runner_without_gcs_output:
  "task_metric_config example_gpu_task = None \<and>
   (let d' = snd (GpuCreateResourceTask_run example_gpu_task dag0)
    in operator (tasks d' ! 5) = ''gpu.ssh_host'' \<and>
       override (tasks d' ! 5) =
         [(''task_id'', VStr ''run_model''), (''execution_timeout'', VTimedelta (minutes 60)),
          (''owner'', VStr ''owner'')] \<and>
       args (tasks d' ! 5) = [VXCom 3, VStr ''python3 run.py'', VXCom 1, VNone] \<and>
       kwargs (tasks d' ! 5) = [] \<and>
       operator (tasks d' ! 7) = ''metric.process_metrics'' \<and>
       kwargs (tasks d' ! 7) = [(''folder_location'', VXCom 2)])"
proof -
  have e: "existing_instance_name example_gpu_task = None"
    by (simp add: example_gpu_task_def)
  show ?thesis
    by (simp add: GpuCreateResourceTask_run_new[OF wf_dag0 length_dag0 e],
        simp add: gpu_run_tasks_def gpu_env_def use_gcs_env_def example_gpu_task_def
          tf_test_config_def dag0_def)
qed

text \<open>
  Claim C9. With existing_instance_name set, GpuCreateResourceTask.run adds exactly seven
  tasks and leaves the tasks already in the graph as they were; none of the added tasks
  creates or deletes a VM; provisioning generates an SSH key pair and looks the named
  instance up, and the clean-up stage is the single task gpu.clean_up_ssh_keys, applied to
  the named instance and to the keys generated in provisioning.
\<close>

theorem existing_instance_pipeline:
  assumes "wf_dag d" and "existing_instance_name self = Some i"
  shows "case GpuCreateResourceTask_run_with_existing_instance_body self
                (snd (TaskGroup_enter (benchmark_id (task_test_config self)) d)) of
           ((provision, run_model, post_process, clean_up), d1) \<Rightarrow>
          (case GpuCreateResourceTask_run self d of
             (grp, d') \<Rightarrow>
               (let n = length (tasks d)
                in take n (tasks d') = tasks d \<and>
                   map operator (drop n (tasks d')) =
                     [''ssh.generate_ssh_keys'', ''gpu.get_existing_resource'',
                      ''name_format.generate_gcs_folder_location'',
                      ''metric.generate_process_id'', ''metric.process_metrics'',
                      ''gpu.ssh_host'', ''gpu.clean_up_ssh_keys''] \<and>
                   ''gpu.create_resource'' \<notin> set (map operator (drop n (tasks d'))) \<and>
                   ''gpu.delete_resource'' \<notin> set (map operator (drop n (tasks d'))) \<and>
                   provision = Group [n, n + 1, n + 2] \<and>
                   kwargs (tasks d' ! (n + 1)) =
                     [(''instance_name'', VStr i), (''ssh_keys'', VXCom n),
                      (''gcp'', VObj ''task_gcp_config'')] \<and>
                   clean_up = Task (n + 6) \<and>
                   args (tasks d' ! (n + 6)) = [] \<and>
                   kwargs (tasks d' ! (n + 6)) =
                     [(''instance_name'', VStr i), (''ssh_keys'', VXCom n),
                      (''gcp'', VObj ''task_gcp_config'')]))"
proof -
  define n where "n = length (tasks d)"
  then have n: "length (tasks d) = n" by simp
  have e: "existing_instance_name self \<noteq> None"
    using assms(2) by simp
  show ?thesis
    by (simp add: TaskGroup_enter_start
          GpuCreateResourceTask_run_with_existing_instance_body_ext[OF assms(1) n]
          GpuCreateResourceTask_run_existing[OF assms(1) n e] n nth_ext[OF n]
          gpu_existing_tasks_def opt_str_def assms(2))
qed

theorem existing_instance_pipeline_witness:
  "wf_dag dag0 \<and> existing_instance_name example_existing_gpu_task = Some ''vm-1'' \<and>
   map operator (tasks (snd (GpuCreateResourceTask_run example_existing_gpu_task dag0))) =
     [''ssh.generate_ssh_keys'', ''gpu.get_existing_resource'',
      ''name_format.generate_gcs_folder_location'',
      ''metric.generate_process_id'', ''metric.process_metrics'',
      ''gpu.ssh_host'', ''gpu.clean_up_ssh_keys''] \<and>
   kwargs (tasks (snd (GpuCreateResourceTask_run example_existing_gpu_task dag0)) ! 6) =
     [(''instance_name'', VStr ''vm-1''), (''ssh_keys'', VXCom 0),
      (''gcp'', VObj ''task_gcp_config'')]"
proof -
  have e: "existing_instance_name example_existing_gpu_task = Some ''vm-1''"
    by (simp add: example_existing_gpu_task_def)
  from existing_instance_pipeline[OF wf_dag0 e] e show ?thesis
    by (simp add: wf_dag0 length_dag0 split_beta Let_def)
qed

section \<open>The batch-job manifest\<close>

subsection \<open>The timeout in seconds\<close>

lemma bit_length_bounds:
  "0 < n \<Longrightarrow> 2 ^ (bit_length n - 1) \<le> n \<and> n < 2 ^ bit_length n"
proof (induction n rule: bit_length.induct)
  case (1 n)
  show ?case
  proof (cases "n div 2 \<le> 0")
    case True
    with 1 have "n = 1" by simp
    then show ?thesis by (simp add: bit_length.simps[of 1] bit_length.simps[of 0])
  next
    case False
    with 1 have IH: "2 ^ (bit_length (n div 2) - 1) \<le> n div 2" "n div 2 < 2 ^ bit_length (n div 2)"
      by simp_all
    from False have pos: "0 < bit_length (n div 2)" by (simp add: bit_length.simps[of "n div 2"])
    have bl: "bit_length n = Suc (bit_length (n div 2))"
      using 1 by (simp add: bit_length.simps[of n])
    from IH(1) have "2 * 2 ^ (bit_length (n div 2) - 1) \<le> n" by simp
    moreover from pos have "(2::int) * 2 ^ (bit_length (n div 2) - 1) = 2 ^ bit_length (n div 2)"
      by (cases "bit_length (n div 2)") simp_all
    moreover from IH(2) have "n < 2 * 2 ^ bit_length (n div 2)" by simp
    ultimately show ?thesis by (simp add: bl)
  qed
qed

lemma round_half_even_cases:
  "round_half_even a b = a div b \<or>
   (round_half_even a b = a div b + 1 \<and> b \<le> 2 * (a mod b))"
  by (simp add: round_half_even_def Let_def)

lemma round_shift_exact:
  assumes "524288 \<le> (P::int)" "0 \<le> a"
  shows "round_half_even (a * P) 1000000 div P = a div 1000000"
proof -
  define Q where "Q = a div 1000000"
  define R where "R = a mod 1000000"
  have a: "a = 1000000 * Q + R" and R: "R < 1000000" "0 \<le> R" and Q: "0 \<le> Q"
    using assms(2) by (simp_all add: Q_def R_def pos_imp_zdiv_nonneg_iff)
  define x where "x = R * P"
  from R have "R \<le> 999999" by simp
  with assms(1) have xle: "x \<le> 999999 * P" unfolding x_def by (simp add: mult_right_mono)
  from R assms(1) have x0: "0 \<le> x" unfolding x_def by simp
  have aP: "a * P = x + (Q * P) * 1000000"
    by (simp add: a x_def algebra_simps)
  have dv: "(a * P) div 1000000 = Q * P + x div 1000000"
    unfolding aP by simp
  have md: "(a * P) mod 1000000 = x mod 1000000"
    unfolding aP by simp
  define y where "y = round_half_even (a * P) 1000000 - Q * P"
  define q r where "q = x div 1000000" and "r = x mod 1000000"
  have x: "x = 1000000 * q + r" by (simp add: q_def r_def)
  have r: "0 \<le> r" "r < 1000000" and q: "0 \<le> q"
    using x0 by (simp_all add: q_def r_def pos_imp_zdiv_nonneg_iff)
  from round_half_even_cases[of "a * P" 1000000]
  have y: "round_half_even (a * P) 1000000 = Q * P + y"
    and y': "y = q \<or> (y = q + 1 \<and> 1000000 \<le> 2 * r)"
    unfolding y_def dv md q_def r_def by auto
  have "y < P"
    using y' xle assms(1) r q unfolding x by linarith
  moreover have "0 \<le> y" using y' q by auto
  ultimately have "round_half_even (a * P) 1000000 div P = Q"
    using assms(1) unfolding y by simp
  then show ?thesis by (simp add: Q_def)
qed

lemma int_true_divide_whole:
  assumes "0 \<le> a" "a < 17179869184000000"
  shows "int_true_divide a 1000000 = a div 1000000"
proof (cases "a = 0")
  case True
  then show ?thesis by (simp add: int_true_divide_def)
next
  case False
  with assms have pos: "0 < a" by simp
  have lb: "bit_length 1000000 = 20"
    by (simp add: bit_length.simps)
  define la where "la = bit_length a"
  from bit_length_bounds[OF pos] have la: "2 ^ (la - 1) \<le> a" "a < 2 ^ la"
    by (simp_all add: la_def)
  from la(1) assms(2) have "(2::int) ^ (la - 1) < 2 ^ 54" by simp
  then have "la - 1 < 54" by (simp only: power_strict_increasing_iff) 
  then have la54: "la \<le> 54" by simp
  define k where "k = int la - 20"
  define fl where "fl = (if (if 0 \<le> k then 1000000 * 2 ^ nat k \<le> a else 1000000 \<le> a * 2 ^ nat (- k))
                     then k else k - 1)"
  have fl: "fl \<le> 33"
  proof (cases "k \<le> 33")
    case True
    then show ?thesis by (simp add: fl_def)
  next
    case False
    with la54 have k: "k = 34" by (simp add: k_def)
    have "\<not> 1000000 * 2 ^ nat k \<le> a" using assms(2) by (simp add: k)
    then show ?thesis by (simp add: fl_def k)
  qed
  define s where "s = nat (52 - fl)"
  from fl have s: "19 \<le> s" by (simp add: s_def)
  then have "(2::int) ^ 19 \<le> 2 ^ s" by (rule power_increasing) simp
  then have P: "524288 \<le> (2::int) ^ s" by simp
  have "int_true_divide a 1000000 = round_half_even (a * 2 ^ s) 1000000 div 2 ^ s"
    using False fl
    by (simp add: int_true_divide_def lb la_def[symmetric] k_def[symmetric] Let_def
          fl_def[symmetric] s_def)
  also have "\<dots> = a div 1000000"
    using P assms(1) by (rule round_shift_exact)
  finally show ?thesis .
qed

lemma round_shift_near:
  assumes "0 < (P::int)" "0 \<le> a" "0 < b"
  shows "a div b \<le> round_half_even (a * P) b div P \<and>
         round_half_even (a * P) b div P \<le> a div b + 1"
proof -
  define z where "z = (a * P) div b"
  have zP: "z div P = a div b"
  proof -
    have "z div P = (a * P) div (b * P)"
      unfolding z_def using assms(1) by (simp add: zdiv_zmult2_eq)
    also have "\<dots> = a div b"
      using assms(1) by simp
    finally show ?thesis .
  qed
  from round_half_even_cases[of "a * P" b]
  have c: "round_half_even (a * P) b = z \<or> round_half_even (a * P) b = z + 1"
    by (auto simp: z_def)
  have up: "(z + 1) div P \<le> z div P + 1"
  proof -
    from assms(1) have "z + 1 \<le> z + P" by simp
    then have "(z + 1) div P \<le> (z + P) div P"
      using assms(1) by (intro zdiv_mono1) simp_all
    also have "\<dots> = z div P + 1"
      by (rule div_add_self2) (use assms(1) in simp)
    finally show ?thesis .
  qed
  have lo: "z div P \<le> (z + 1) div P"
    using assms(1) by (intro zdiv_mono1) simp_all
  from c show ?thesis
  proof
    assume "round_half_even (a * P) b = z"
    then show ?thesis by (simp add: zP)
  next
    assume "round_half_even (a * P) b = z + 1"
    with up lo show ?thesis by (simp add: zP)
  qed
qed

lemma int_true_divide_near:
  assumes "0 \<le> a" "a \<le> 86399999999999999999"
  shows "a div 1000000 \<le> int_true_divide a 1000000 \<and>
         int_true_divide a 1000000 \<le> a div 1000000 + 1"
proof (cases "a = 0")
  case True
  then show ?thesis by (simp add: int_true_divide_def)
next
  case False
  with assms have pos: "0 < a" by simp
  have lb: "bit_length 1000000 = 20"
    by (simp add: bit_length.simps)
  define la where "la = bit_length a"
  from bit_length_bounds[OF pos] have la: "2 ^ (la - 1) \<le> a" "a < 2 ^ la"
    by (simp_all add: la_def)
  from la(1) assms(2) have "(2::int) ^ (la - 1) < 2 ^ 67" by simp
  then have "la - 1 < 67" by (simp only: power_strict_increasing_iff)
  then have la67: "la \<le> 67" by simp
  define k where "k = int la - 20"
  define fl where "fl = (if (if 0 \<le> k then 1000000 * 2 ^ nat k \<le> a else 1000000 \<le> a * 2 ^ nat (- k))
                     then k else k - 1)"
  from la67 have fl: "fl \<le> 47" by (simp add: fl_def k_def)
  define s where "s = nat (52 - fl)"
  have "int_true_divide a 1000000 = round_half_even (a * 2 ^ s) 1000000 div 2 ^ s"
    using False fl
    by (simp add: int_true_divide_def lb la_def[symmetric] k_def[symmetric] Let_def
          fl_def[symmetric] s_def)
  moreover have "a div 1000000 \<le> round_half_even (a * 2 ^ s) 1000000 div 2 ^ s \<and>
      round_half_even (a * 2 ^ s) 1000000 div 2 ^ s \<le> a div 1000000 + 1"
    using assms(1) by (intro round_shift_near) simp_all
  ultimately show ?thesis by simp
qed

lemma total_seconds_int_near:
  assumes "\<bar>td\<bar> \<le> 86399999999999999999"
  shows "\<bar>td\<bar> div 1000000 \<le> \<bar>total_seconds_int td\<bar> \<and>
         \<bar>total_seconds_int td\<bar> \<le> \<bar>td\<bar> div 1000000 + 1"
proof (cases "0 \<le> td")
  case True
  then have "0 \<le> td div 1000000" by (simp add: pos_imp_zdiv_nonneg_iff)
  with True assms int_true_divide_near[of td] show ?thesis
    by (simp add: total_seconds_int_def)
next
  case False
  then have "0 \<le> (- td) div 1000000" by (simp add: pos_imp_zdiv_nonneg_iff)
  with False assms int_true_divide_near[of "- td"] show ?thesis
    by (simp add: total_seconds_int_def)
qed

lemma total_seconds_int_whole:
  assumes "\<bar>td\<bar> < 17179869184000000"
  shows "total_seconds_int td = (if 0 \<le> td then td div 1000000 else - ((- td) div 1000000))"
  using assms by (simp add: total_seconds_int_def int_true_divide_whole)

lemma total_seconds_int_sign:
  assumes "\<bar>td\<bar> \<le> 86399999999999999999"
  shows "(0 \<le> total_seconds_int td) \<longleftrightarrow> (0 \<le> td \<or> total_seconds_int td = 0)"
proof (cases "0 \<le> td")
  case True
  then have "0 \<le> td div 1000000" by (simp add: pos_imp_zdiv_nonneg_iff)
  with True assms int_true_divide_near[of td] show ?thesis
    by (simp add: total_seconds_int_def)
next
  case False
  then have "0 \<le> (- td) div 1000000" by (simp add: pos_imp_zdiv_nonneg_iff)
  with False assms int_true_divide_near[of "- td"] show ?thesis
    by (auto simp add: total_seconds_int_def)
qed

lemma total_seconds_int_examples:
  "total_seconds_int 0 = 0"
  "total_seconds_int 5400500000 = 5400"
  by (simp_all add: total_seconds_int_def int_true_divide_def bit_length.simps
        round_half_even_def Let_def)

subsection \<open>The fields of the manifest\<close>

lemma manifest_fields:
  assumes "GpuGkeTask_get_job_manifest shlex_split self = Inr m"
  shows "jget m [Key ''spec'', Key ''completions''] = Some (JInt (num_hosts (task_test_config self)))"
    and "jget m [Key ''spec'', Key ''parallelism''] = Some (JInt (num_hosts (task_test_config self)))"
    and "jget m [Key ''spec'', Key ''completionMode''] = Some (JStr ''Indexed'')"
    and "jget m [Key ''spec'', Key ''backoffLimit''] = Some (JInt 0)"
    and "jget m [Key ''spec'', Key ''activeDeadlineSeconds''] =
           Some (JInt (if total_seconds_int (timeout (task_test_config self)) = 0 then 3600
                       else total_seconds_int (timeout (task_test_config self))))"
    and "jget m [Key ''spec'', Key ''template'', Key ''spec'', Key ''containers'', Idx 0,
                 Key ''resources'', Key ''limits'', Key ''nvidia.com/gpu''] =
           Some (JInt (count (accelerator (task_test_config self))))"
  using assms
  by (auto simp: GpuGkeTask_get_job_manifest_def Let_def split: sum.splits)

text \<open>
  Claim C4, as the code has it. The batch-job manifest is a function of the test config
  alone; it is emitted exactly when both scripts tokenise, and then \<open>spec.completions\<close> and
  \<open>spec.parallelism\<close> are \<open>num_hosts\<close>, \<open>spec.completionMode\<close> is \<open>Indexed\<close>,
  \<open>spec.backoffLimit\<close> is 0 and the container's GPU limit is \<open>accelerator.count\<close>.
  \<open>spec.activeDeadlineSeconds\<close> is \<^verbatim>\<open>int(timeout.total_seconds())\<close>, or 3600 when that
  is zero. For a timeout shorter than \<open>2^34\<close> seconds in absolute value this is the number
  of whole seconds of the timeout, the fraction dropped. For the other timeouts it can be
  one second more in absolute value, never less and never more than that, because the
  seconds pass through a double.
\<close>

theorem manifest_derivation:
  "(GpuGkeTask_get_job_manifest shlex_split self = Inr m \<longrightarrow>
      jget m [Key ''spec'', Key ''completions''] = Some (JInt (num_hosts (task_test_config self))) \<and>
      jget m [Key ''spec'', Key ''parallelism''] = Some (JInt (num_hosts (task_test_config self))) \<and>
      jget m [Key ''spec'', Key ''completionMode''] = Some (JStr ''Indexed'') \<and>
      jget m [Key ''spec'', Key ''backoffLimit''] = Some (JInt 0) \<and>
      jget m [Key ''spec'', Key ''activeDeadlineSeconds''] =
        Some (JInt (if total_seconds_int (timeout (task_test_config self)) = 0 then 3600
                    else total_seconds_int (timeout (task_test_config self)))) \<and>
      jget m [Key ''spec'', Key ''template'', Key ''spec'', Key ''containers'', Idx 0,
              Key ''resources'', Key ''limits'', Key ''nvidia.com/gpu''] =
        Some (JInt (count (accelerator (task_test_config self))))) \<and>
   (GpuGkeTask_get_job_manifest shlex_split self = Inr m \<and>
    \<bar>timeout (task_test_config self)\<bar> < 17179869184000000 \<longrightarrow>
      jget m [Key ''spec'', Key ''activeDeadlineSeconds''] =
        Some (JInt (if \<bar>timeout (task_test_config self)\<bar> < 1000000 then 3600
                    else if 0 \<le> timeout (task_test_config self)
                    then timeout (task_test_config self) div 1000000
                    else - ((- timeout (task_test_config self)) div 1000000)))) \<and>
   (\<bar>timeout (task_test_config self)\<bar> \<le> 86399999999999999999 \<longrightarrow>
      \<bar>timeout (task_test_config self)\<bar> div 1000000
        \<le> \<bar>total_seconds_int (timeout (task_test_config self))\<bar> \<and>
      \<bar>total_seconds_int (timeout (task_test_config self))\<bar>
        \<le> \<bar>timeout (task_test_config self)\<bar> div 1000000 + 1 \<and>
      (0 \<le> total_seconds_int (timeout (task_test_config self)) \<longleftrightarrow>
       0 \<le> timeout (task_test_config self) \<or>
       total_seconds_int (timeout (task_test_config self)) = 0)) \<and>
   (task_test_config self' = task_test_config self \<longrightarrow>
      GpuGkeTask_get_job_manifest shlex_split self' =
      GpuGkeTask_get_job_manifest shlex_split self) \<and>
   ((\<exists>m'. GpuGkeTask_get_job_manifest shlex_split self = Inr m') \<longleftrightarrow>
      (\<exists>c a. shlex_split (setup_script (task_test_config self)) = Inr c \<and>
             shlex_split (test_script (task_test_config self)) = Inr a))"
proof (intro conjI impI)
  assume "task_test_config self' = task_test_config self"
  then show "GpuGkeTask_get_job_manifest shlex_split self' =
      GpuGkeTask_get_job_manifest shlex_split self"
    by (simp only: GpuGkeTask_get_job_manifest_def)
next
  show "(\<exists>m'. GpuGkeTask_get_job_manifest shlex_split self = Inr m') \<longleftrightarrow>
      (\<exists>c a. shlex_split (setup_script (task_test_config self)) = Inr c \<and>
             shlex_split (test_script (task_test_config self)) = Inr a)"
    by (auto simp: GpuGkeTask_get_job_manifest_def Let_def split: sum.splits)
next
  assume a: "GpuGkeTask_get_job_manifest shlex_split self = Inr m \<and>
    \<bar>timeout (task_test_config self)\<bar> < 17179869184000000"
  then have w: "total_seconds_int (timeout (task_test_config self)) =
      (if 0 \<le> timeout (task_test_config self)
       then timeout (task_test_config self) div 1000000
       else - ((- timeout (task_test_config self)) div 1000000))"
    by (intro total_seconds_int_whole) simp
  have z: "(total_seconds_int (timeout (task_test_config self)) = 0) =
      (\<bar>timeout (task_test_config self)\<bar> < 1000000)"
    unfolding w by (auto simp: div_eq_0_iff)
  from a manifest_fields(5)[of shlex_split self m]
  show "jget m [Key ''spec'', Key ''activeDeadlineSeconds''] =
        Some (JInt (if \<bar>timeout (task_test_config self)\<bar> < 1000000 then 3600
                    else if 0 \<le> timeout (task_test_config self)
                    then timeout (task_test_config self) div 1000000
                    else - ((- timeout (task_test_config self)) div 1000000)))"
    unfolding z[symmetric] by (simp add: w)
next
  assume r: "\<bar>timeout (task_test_config self)\<bar> \<le> 86399999999999999999"
  from total_seconds_int_near[OF r]
  show "\<bar>timeout (task_test_config self)\<bar> div 1000000
        \<le> \<bar>total_seconds_int (timeout (task_test_config self))\<bar>"
    and "\<bar>total_seconds_int (timeout (task_test_config self))\<bar>
        \<le> \<bar>timeout (task_test_config self)\<bar> div 1000000 + 1"
    by simp_all
  from total_seconds_int_sign[OF r]
  show "(0 \<le> total_seconds_int (timeout (task_test_config self))) \<longleftrightarrow>
       (0 \<le> timeout (task_test_config self) \<or>
       total_seconds_int (timeout (task_test_config self)) = 0)" .
qed (simp_all add: manifest_fields)

theorem manifest_derivation_witness:
  "(\<exists>m. GpuGkeTask_get_job_manifest words1 example_gke_task = Inr m \<and>
     jget m [Key ''spec'', Key ''completions''] = Some (JInt 4) \<and>
     jget m [Key ''spec'', Key ''parallelism''] = Some (JInt 4) \<and>
     jget m [Key ''spec'', Key ''activeDeadlineSeconds''] = Some (JInt 3600) \<and>
     jget m [Key ''spec'', Key ''template'', Key ''spec'', Key ''containers'', Idx 0,
             Key ''resources'', Key ''limits'', Key ''nvidia.com/gpu''] = Some (JInt 8)) \<and>
   (\<exists>m. GpuGkeTask_get_job_manifest words1 example_gke_task_90min = Inr m \<and>
     jget m [Key ''spec'', Key ''activeDeadlineSeconds''] = Some (JInt 5400))"
proof -
  obtain m where m: "GpuGkeTask_get_job_manifest words1 example_gke_task = Inr m"
    by (simp add: GpuGkeTask_get_job_manifest_def words1_def Let_def)
  obtain m' where m': "GpuGkeTask_get_job_manifest words1 example_gke_task_90min = Inr m'"
    by (simp add: GpuGkeTask_get_job_manifest_def words1_def Let_def)
  from manifest_derivation[of words1 example_gke_task m example_gke_task] m
  have 1: "jget m [Key ''spec'', Key ''completions''] = Some (JInt 4) \<and>
     jget m [Key ''spec'', Key ''parallelism''] = Some (JInt 4) \<and>
     jget m [Key ''spec'', Key ''activeDeadlineSeconds''] = Some (JInt 3600) \<and>
     jget m [Key ''spec'', Key ''template'', Key ''spec'', Key ''containers'', Idx 0,
             Key ''resources'', Key ''limits'', Key ''nvidia.com/gpu''] = Some (JInt 8)"
    by (simp add: example_gke_task_def total_seconds_int_examples)
  from manifest_derivation[of words1 example_gke_task_90min m' example_gke_task_90min] m'
  have 2: "jget m' [Key ''spec'', Key ''activeDeadlineSeconds''] = Some (JInt 5400)"
    by (simp add: example_gke_task_90min_def example_gke_task_def total_seconds_int_examples)
  from m m' 1 2 show ?thesis by blast
qed

theorem manifest_deadline_one_second_more:
  "\<exists>m. GpuGkeTask_get_job_manifest words1 example_gke_task_long = Inr m \<and>
     timeout (task_test_config example_gke_task_long) = 17179869184 * 1000000 + 999999 \<and>
     jget m [Key ''spec'', Key ''activeDeadlineSeconds''] = Some (JInt 17179869185)"
  by (simp add: GpuGkeTask_get_job_manifest_def words1_def Let_def example_gke_task_long_def
        example_gke_task_def total_seconds_int_def int_true_divide_def bit_length.simps
        round_half_even_def)

end
